theory Spec2Isabelle
  imports Complex_Main "HOL-Library.List_Lexorder" "HOL-Library.Char_ord"
begin

section \<open>TradeWizard: realized P&L and win/loss analytics\<close>

text \<open>
  A shallow embedding of \<^verbatim>\<open>TradeLogService\<close> in
  \<^verbatim>\<open>backend/app/modules/tradelog/service.py\<close>: the position reconstruction
  (\<^verbatim>\<open>_calculate_positions_pnl\<close>), the breakdown (\<^verbatim>\<open>_calculate_breakdown\<close>), the three
  groupings, the entry point \<^verbatim>\<open>get_win_loss_analysis\<close> and the dashboard rollup
  (\<^verbatim>\<open>get_dashboard_stats\<close>).

  Conventions of the embedding.
  \<^item> \<^verbatim>\<open>decimal.Decimal\<close> (the type SQLAlchemy returns for the \<^verbatim>\<open>Numeric\<close> columns
    \<^verbatim>\<open>quantity\<close>, \<^verbatim>\<open>price\<close>, \<^verbatim>\<open>commission\<close>) is the rational number it denotes. The
    decimal context rounds every result to 28 significant digits; the model does not,
    so a modelled value is the code's value only where no result needs more digits
    (a quotient such as \<open>50 / 3\<close> does). The properties below that involve a quotient
    hold for the same quotient on both sides or say only when the division raises.
  \<^item> A Python \<^verbatim>\<open>float\<close> is the rational it approximates, or \<open>+inf\<close>; binary
    rounding is not modelled. The only \<^verbatim>\<open>float\<close> values the properties below
    evaluate are \<open>0\<close>, \<open>100\<close> and \<open>+inf\<close>, which are exact.
  \<^item> Every exception the code can raise is a value \<open>Inl e\<close> of a sum type.
  \<^item> A \<^verbatim>\<open>dict\<close> is an association list in insertion order, which is the order
    in which Python iterates it.
\<close>

subsection \<open>Python values and exceptions\<close>

type_synonym decimal = rat

datatype pyfloat = Finite rat | Infinity

datatype py_error = TypeError | DivisionByZero | InvalidOperation

text \<open>
  \<^verbatim>\<open>Decimal.__truediv__\<close>: under the default context a zero divisor raises
  \<^verbatim>\<open>decimal.DivisionByZero\<close>, or \<^verbatim>\<open>decimal.InvalidOperation\<close> for \<open>0 / 0\<close>.
\<close>

definition decimal_div :: "decimal \<Rightarrow> decimal \<Rightarrow> py_error + decimal" where
  "decimal_div a b =
     (if b = 0 then Inl (if a = 0 then InvalidOperation else DivisionByZero)
      else Inr (a / b))"

text \<open>
  \<^verbatim>\<open>float * Decimal\<close>: \<^verbatim>\<open>float.__mul__\<close> and \<^verbatim>\<open>Decimal.__rmul__\<close> both return
  \<^verbatim>\<open>NotImplemented\<close> (the decimal module converts only \<^verbatim>\<open>int\<close> and \<^verbatim>\<open>Decimal\<close>
  operands), so the interpreter raises
  \<^verbatim>\<open>TypeError: unsupported operand type(s) for *: 'float' and 'decimal.Decimal'\<close>,
  whatever the two values are.
\<close>

definition float_mul_decimal :: "pyfloat \<Rightarrow> decimal \<Rightarrow> py_error + decimal" where
  "float_mul_decimal x d = Inl TypeError"

text \<open>\<^verbatim>\<open>len(a) / len(b)\<close> on two \<^verbatim>\<open>int\<close>s is true division and yields a \<^verbatim>\<open>float\<close>.\<close>

definition int_truediv :: "nat \<Rightarrow> nat \<Rightarrow> pyfloat" where
  "int_truediv a b = Finite (of_nat a / of_nat b)"

definition float_mul_int :: "pyfloat \<Rightarrow> int \<Rightarrow> pyfloat" where
  "float_mul_int x n = (case x of Finite r \<Rightarrow> Finite (r * of_int n) | Infinity \<Rightarrow> Infinity)"

definition round_half_even :: "rat \<Rightarrow> int" where
  "round_half_even x =
     (let f = \<lfloor>x\<rfloor>; d = x - of_int f
      in if d < 1 / 2 then f else if 1 / 2 < d then f + 1
         else if even f then f else f + 1)"

text \<open>\<^verbatim>\<open>round(x, 2)\<close>; \<^verbatim>\<open>round(float('inf'), 2)\<close> is \<open>inf\<close>.\<close>

definition py_round2 :: "pyfloat \<Rightarrow> pyfloat" where
  "py_round2 x =
     (case x of Finite r \<Rightarrow> Finite (of_int (round_half_even (r * 100)) / 100)
      | Infinity \<Rightarrow> Infinity)"

subsection \<open>The data model (\<^verbatim>\<open>app/core/models.py\<close>)\<close>

type_synonym uuid = nat

text \<open>
  A timezone-aware \<^verbatim>\<open>datetime\<close>, by the two observations the code makes of it:
  its instant in microseconds since \<^verbatim>\<open>datetime.min\<close> (comparison, sorting and
  subtraction go through it) and its rendering by \<^verbatim>\<open>strftime('%Y-%m')\<close>.
  A \<^verbatim>\<open>timedelta\<close> is a number of microseconds.
\<close>

record datetime =
  instant :: int
  year_month :: string

type_synonym timedelta = int

text \<open>
  A row of \<^verbatim>\<open>trades\<close>. Every column the code reads is \<^verbatim>\<open>nullable=False\<close> but
  \<^verbatim>\<open>commission\<close> (\<^verbatim>\<open>Column(Numeric(10, 4), default=0)\<close>), which can hold \<^verbatim>\<open>NULL\<close>, read
  as \<^verbatim>\<open>None\<close>.
\<close>

record trade =
  trade_uid :: uuid
  account_id :: uuid
  symbol :: string
  quantity :: decimal
  price :: decimal
  side :: string
  trade_date :: datetime
  commission :: "decimal option"

record trade_account =
  account_uid :: uuid
  user_id :: uuid

record trade_tag =
  tag_uid :: uuid
  tag_name :: string

record trade_tag_association =
  assoc_trade_id :: uuid
  assoc_tag_id :: uuid

record database =
  trades :: "trade list"
  trade_accounts :: "trade_account list"
  trade_tags :: "trade_tag list"
  trade_tag_associations :: "trade_tag_association list"

text \<open>
  The dictionary appended to \<^verbatim>\<open>position_results\<close> for a closing SELL
  (\<^verbatim>\<open>'symbol'\<close>, \<^verbatim>\<open>'pnl'\<close>, \<^verbatim>\<open>'close_date'\<close>, \<^verbatim>\<open>'quantity'\<close>, \<^verbatim>\<open>'entry_price'\<close>,
  \<^verbatim>\<open>'exit_price'\<close>, \<^verbatim>\<open>'tags'\<close>, \<^verbatim>\<open>'hold_time'\<close>): the spec's ClosingEvent.
\<close>

record closing_event =
  ev_symbol :: string
  pnl :: decimal
  close_date :: datetime
  ev_quantity :: decimal
  entry_price :: decimal
  exit_price :: decimal
  tags :: "string list"
  hold_time :: timedelta

text \<open>The two local variables \<^verbatim>\<open>position_qty\<close> and \<^verbatim>\<open>avg_price\<close>: the spec's OpenLot.\<close>

record open_lot =
  position_qty :: decimal
  avg_price :: decimal

subsection \<open>Grouping into a dictionary of lists\<close>

text \<open>
  \<^verbatim>\<open>d[key].append(x)\<close> on a \<^verbatim>\<open>defaultdict(list)\<close>: a new key goes to the end of the
  dictionary, an old key keeps its place.
\<close>

fun dict_append :: "'k \<Rightarrow> 'v \<Rightarrow> ('k \<times> 'v list) list \<Rightarrow> ('k \<times> 'v list) list" where
  "dict_append k v [] = [(k, [v])]"
| "dict_append k v ((k', vs) # d) =
     (if k = k' then (k', vs @ [v]) # d else (k', vs) # dict_append k v d)"

definition group_by :: "('v \<Rightarrow> 'k) \<Rightarrow> 'v list \<Rightarrow> ('k \<times> 'v list) list" where
  "group_by key xs = foldl (\<lambda>d x. dict_append (key x) x d) [] xs"

subsection \<open>Position reconstruction (\<^verbatim>\<open>_calculate_positions_pnl\<close>)\<close>

text \<open>
  Lines 393 to 400: the names of the tags associated with a trade; an association
  whose tag row is missing contributes nothing.
\<close>

definition lookup_tags :: "database \<Rightarrow> trade \<Rightarrow> string list" where
  "lookup_tags db last_open =
     (let tag_assocs = filter (\<lambda>ta. assoc_trade_id ta = trade_uid last_open)
                         (trade_tag_associations db)
      in concat (map (\<lambda>ta. case find (\<lambda>tg. tag_uid tg = assoc_tag_id ta) (trade_tags db) of
                             None \<Rightarrow> [] | Some tg \<Rightarrow> [tag_name tg]) tag_assocs))"

text \<open>
  The body of the inner loop, lines 374 to 417, for the trade at index \<open>i\<close>. Line 385
  subtracts the commission: \<^verbatim>\<open>Decimal - None\<close> raises \<^verbatim>\<open>TypeError\<close>.
\<close>

definition process_trade ::
  "database \<Rightarrow> string \<Rightarrow> trade list \<Rightarrow> nat \<Rightarrow> trade \<Rightarrow> open_lot \<times> closing_event list
     \<Rightarrow> py_error + open_lot \<times> closing_event list" where
  "process_trade db symb symbol_trades i t acc =
     (case acc of (lot, position_results) \<Rightarrow>
        if side t = ''BUY'' then
          (if position_qty lot = 0 then
             Inr (\<lparr>position_qty = position_qty lot + quantity t, avg_price = price t\<rparr>,
                  position_results)
           else
             (case decimal_div (avg_price lot * position_qty lot + price t * quantity t)
                               (position_qty lot + quantity t) of
                Inl e \<Rightarrow> Inl e
              | Inr a \<Rightarrow>
                  Inr (\<lparr>position_qty = position_qty lot + quantity t, avg_price = a\<rparr>,
                       position_results)))
        else if 0 < position_qty lot then
          (case commission t of
             None \<Rightarrow> Inl TypeError
           | Some c \<Rightarrow>
          (let close_qty = min (quantity t) (position_qty lot);
               pnl_v = (price t - avg_price lot) * close_qty - c;
               opening_trades = filter (\<lambda>u. side u = ''BUY'') (take i symbol_trades);
               tags_v = (if opening_trades \<noteq> [] then lookup_tags db (last opening_trades)
                         else []);
               ev = \<lparr>ev_symbol = symb, pnl = pnl_v, close_date = trade_date t,
                     ev_quantity = close_qty, entry_price = avg_price lot,
                     exit_price = price t, tags = tags_v,
                     hold_time = (if opening_trades \<noteq> []
                                  then instant (trade_date t)
                                       - instant (trade_date (last opening_trades))
                                  else 0)\<rparr>;
               q' = position_qty lot - close_qty
           in Inr (\<lparr>position_qty = q', avg_price = (if q' = 0 then 0 else avg_price lot)\<rparr>,
                   position_results @ [ev])))
        else Inr acc)"

text \<open>\<^verbatim>\<open>for i, trade in enumerate(symbol_trades)\<close>; an exception leaves the loop.\<close>

fun symbol_loop ::
  "database \<Rightarrow> string \<Rightarrow> trade list \<Rightarrow> (nat \<times> trade) list \<Rightarrow> open_lot \<times> closing_event list
     \<Rightarrow> py_error + open_lot \<times> closing_event list" where
  "symbol_loop db symb symbol_trades [] acc = Inr acc"
| "symbol_loop db symb symbol_trades ((i, t) # rest) acc =
     (case process_trade db symb symbol_trades i t acc of
        Inl e \<Rightarrow> Inl e
      | Inr acc' \<Rightarrow> symbol_loop db symb symbol_trades rest acc')"

text \<open>\<^verbatim>\<open>symbol_trades.sort(key=lambda x: x.trade_date)\<close>: a stable sort.\<close>

definition sort_by_date :: "trade list \<Rightarrow> trade list" where
  "sort_by_date ts = sort_key (\<lambda>x. instant (trade_date x)) ts"

definition initial_lot :: open_lot where
  "initial_lot = \<lparr>position_qty = 0, avg_price = 0\<rparr>"

text \<open>
  One pass of the outer loop: the instrument's fills in time order, run from an
  empty lot, appending to the results so far.
\<close>

definition symbol_run ::
  "database \<Rightarrow> string \<Rightarrow> trade list \<Rightarrow> closing_event list
     \<Rightarrow> py_error + open_lot \<times> closing_event list" where
  "symbol_run db symb symbol_trades position_results =
     (let sorted_trades = sort_by_date symbol_trades
      in symbol_loop db symb sorted_trades (enumerate 0 sorted_trades)
           (initial_lot, position_results))"

fun positions_loop ::
  "database \<Rightarrow> (string \<times> trade list) list \<Rightarrow> closing_event list
     \<Rightarrow> py_error + closing_event list" where
  "positions_loop db [] position_results = Inr position_results"
| "positions_loop db ((symb, symbol_trades) # rest) position_results =
     (case symbol_run db symb symbol_trades position_results of
        Inl e \<Rightarrow> Inl e
      | Inr (lot, position_results') \<Rightarrow> positions_loop db rest position_results')"

definition calculate_positions_pnl :: "database \<Rightarrow> trade list \<Rightarrow> py_error + closing_event list" where
  "calculate_positions_pnl db ts = positions_loop db (group_by symbol ts) []"

subsection \<open>Breakdown (\<^verbatim>\<open>_calculate_breakdown\<close>, \<^verbatim>\<open>_empty_breakdown\<close>)\<close>

record win_loss_breakdown =
  wins :: nat
  losses :: nat
  breakeven :: nat
  win_rate :: pyfloat
  avg_win :: decimal
  avg_loss :: decimal
  profit_factor :: pyfloat
  expectancy :: decimal

definition empty_breakdown :: win_loss_breakdown where
  "empty_breakdown =
     \<lparr>wins = 0, losses = 0, breakeven = 0, win_rate = Finite 0, avg_win = 0, avg_loss = 0,
      profit_factor = Finite 0, expectancy = 0\<rparr>"

text \<open>The locals of lines 426 to 436, each as a function of \<^verbatim>\<open>positions\<close>.\<close>

definition wins_of :: "closing_event list \<Rightarrow> closing_event list" where
  "wins_of positions = filter (\<lambda>p. 0 < pnl p) positions"

definition losses_of :: "closing_event list \<Rightarrow> closing_event list" where
  "losses_of positions = filter (\<lambda>p. pnl p < 0) positions"

definition breakeven_of :: "closing_event list \<Rightarrow> closing_event list" where
  "breakeven_of positions = filter (\<lambda>p. pnl p = 0) positions"

definition total_wins :: "closing_event list \<Rightarrow> decimal" where
  "total_wins positions =
     (if wins_of positions \<noteq> [] then sum_list (map pnl (wins_of positions)) else 0)"

definition total_losses :: "closing_event list \<Rightarrow> decimal" where
  "total_losses positions =
     (if losses_of positions \<noteq> [] then \<bar>sum_list (map pnl (losses_of positions))\<bar> else 0)"

definition win_rate_of :: "closing_event list \<Rightarrow> pyfloat" where
  "win_rate_of positions =
     (if positions \<noteq> []
      then float_mul_int (int_truediv (length (wins_of positions)) (length positions)) 100
      else Finite 0)"

definition avg_win_of :: "closing_event list \<Rightarrow> decimal" where
  "avg_win_of positions =
     (if wins_of positions \<noteq> []
      then total_wins positions / of_nat (length (wins_of positions)) else 0)"

definition avg_loss_of :: "closing_event list \<Rightarrow> decimal" where
  "avg_loss_of positions =
     (if losses_of positions \<noteq> []
      then total_losses positions / of_nat (length (losses_of positions)) else 0)"

definition profit_factor_of :: "closing_event list \<Rightarrow> pyfloat" where
  "profit_factor_of positions =
     (if 0 < total_losses positions
      then Finite (total_wins positions / total_losses positions)
      else if 0 < total_wins positions then Infinity else Finite 0)"

text \<open>
  Lines 439 to 452. \<^verbatim>\<open>win_pct\<close> and \<^verbatim>\<open>loss_pct\<close> are quotients of two \<^verbatim>\<open>len\<close>s, hence
  \<^verbatim>\<open>float\<close>s, while \<^verbatim>\<open>avg_win\<close> and \<^verbatim>\<open>avg_loss\<close> are \<^verbatim>\<open>Decimal\<close>s: line 441 multiplies
  a \<^verbatim>\<open>float\<close> by a \<^verbatim>\<open>Decimal\<close>.
\<close>

definition calculate_breakdown :: "closing_event list \<Rightarrow> py_error + win_loss_breakdown" where
  "calculate_breakdown positions =
     (if positions = [] then Inr empty_breakdown
      else
        (let win_pct = (if positions \<noteq> []
                        then int_truediv (length (wins_of positions)) (length positions)
                        else Finite 0);
             loss_pct = (if positions \<noteq> []
                         then int_truediv (length (losses_of positions)) (length positions)
                         else Finite 0)
         in case float_mul_decimal win_pct (avg_win_of positions) of
              Inl e \<Rightarrow> Inl e
            | Inr a \<Rightarrow>
               (case float_mul_decimal loss_pct (avg_loss_of positions) of
                  Inl e \<Rightarrow> Inl e
                | Inr b \<Rightarrow>
                    Inr \<lparr>wins = length (wins_of positions),
                         losses = length (losses_of positions),
                         breakeven = length (breakeven_of positions),
                         win_rate = py_round2 (win_rate_of positions),
                         avg_win = avg_win_of positions,
                         avg_loss = avg_loss_of positions,
                         profit_factor = py_round2 (profit_factor_of positions),
                         expectancy = a - b\<rparr>)))"

subsection \<open>The three groupings\<close>

record win_loss_by_timeframe =
  period :: string
  timeframe_type :: string
  tf_breakdown :: win_loss_breakdown
  tf_total_pnl :: decimal
  tf_trade_count :: nat

record win_loss_by_symbol =
  sy_symbol :: string
  sy_breakdown :: win_loss_breakdown
  sy_total_pnl :: decimal
  sy_trade_count :: nat
  avg_hold_time_hours :: "pyfloat option"

record win_loss_by_strategy =
  strategy :: string
  st_breakdown :: win_loss_breakdown
  st_total_pnl :: decimal
  st_trade_count :: nat

text \<open>\<^verbatim>\<open>_analyze_by_timeframe\<close>: the loop of lines 479 to 489.\<close>

fun timeframe_loop ::
  "(string \<times> closing_event list) list \<Rightarrow> win_loss_by_timeframe list
     \<Rightarrow> py_error + win_loss_by_timeframe list" where
  "timeframe_loop [] results = Inr results"
| "timeframe_loop ((per, period_positions) # rest) results =
     (case calculate_breakdown period_positions of
        Inl e \<Rightarrow> Inl e
      | Inr b \<Rightarrow>
          timeframe_loop rest
            (results @ [\<lparr>period = per, timeframe_type = ''monthly'', tf_breakdown = b,
                          tf_total_pnl = sum_list (map pnl period_positions),
                          tf_trade_count = length period_positions\<rparr>]))"

definition monthly_groups :: "closing_event list \<Rightarrow> (string \<times> closing_event list) list" where
  "monthly_groups positions = group_by (\<lambda>pos. year_month (close_date pos)) positions"

definition analyze_by_timeframe :: "closing_event list \<Rightarrow> py_error + win_loss_by_timeframe list" where
  "analyze_by_timeframe positions =
     (if positions = [] then Inr []
      else timeframe_loop (sort_key fst (monthly_groups positions)) [])"

text \<open>
  \<^verbatim>\<open>_analyze_by_symbol\<close>: the loop of lines 503 to 517, then the stable sort by
  \<^verbatim>\<open>total_pnl\<close>, descending.
\<close>

definition avg_hold_time_of :: "closing_event list \<Rightarrow> pyfloat option" where
  "avg_hold_time_of symbol_positions =
     (let hold_times = map (\<lambda>p. rat_of_int (hold_time p) / 1000000 / 3600)
                         (filter (\<lambda>p. hold_time p \<noteq> 0) symbol_positions)
      in if hold_times \<noteq> []
         then Some (Finite (sum_list hold_times / of_nat (length hold_times))) else None)"

fun by_symbol_loop ::
  "(string \<times> closing_event list) list \<Rightarrow> win_loss_by_symbol list
     \<Rightarrow> py_error + win_loss_by_symbol list" where
  "by_symbol_loop [] results = Inr results"
| "by_symbol_loop ((symb, symbol_positions) # rest) results =
     (case calculate_breakdown symbol_positions of
        Inl e \<Rightarrow> Inl e
      | Inr b \<Rightarrow>
          by_symbol_loop rest
            (results @ [\<lparr>sy_symbol = symb, sy_breakdown = b,
                          sy_total_pnl = sum_list (map pnl symbol_positions),
                          sy_trade_count = length symbol_positions,
                          avg_hold_time_hours = avg_hold_time_of symbol_positions\<rparr>]))"

definition symbol_groups :: "closing_event list \<Rightarrow> (string \<times> closing_event list) list" where
  "symbol_groups positions = group_by ev_symbol positions"

definition analyze_by_symbol :: "closing_event list \<Rightarrow> py_error + win_loss_by_symbol list" where
  "analyze_by_symbol positions =
     (if positions = [] then Inr []
      else (case by_symbol_loop (symbol_groups positions) [] of
              Inl e \<Rightarrow> Inl e
            | Inr results \<Rightarrow> Inr (sort_key (\<lambda>x. - sy_total_pnl x) results)))"

text \<open>
  \<^verbatim>\<open>_analyze_by_strategy\<close>: lines 531 to 536 build the buckets, lines 539 to 548
  turn each bucket into a row, line 551 sorts the rows.
\<close>

definition strategy_add ::
  "(string \<times> closing_event list) list \<Rightarrow> closing_event \<Rightarrow> (string \<times> closing_event list) list" where
  "strategy_add d pos =
     (if tags pos \<noteq> [] then foldl (\<lambda>d' tag. dict_append tag pos d') d (tags pos)
      else dict_append ''No Strategy'' pos d)"

definition strategy_groups :: "closing_event list \<Rightarrow> (string \<times> closing_event list) list" where
  "strategy_groups positions = foldl strategy_add [] positions"

fun by_strategy_loop ::
  "(string \<times> closing_event list) list \<Rightarrow> win_loss_by_strategy list
     \<Rightarrow> py_error + win_loss_by_strategy list" where
  "by_strategy_loop [] results = Inr results"
| "by_strategy_loop ((strat, strategy_positions) # rest) results =
     (case calculate_breakdown strategy_positions of
        Inl e \<Rightarrow> Inl e
      | Inr b \<Rightarrow>
          by_strategy_loop rest
            (results @ [\<lparr>strategy = strat, st_breakdown = b,
                          st_total_pnl = sum_list (map pnl strategy_positions),
                          st_trade_count = length strategy_positions\<rparr>]))"

definition analyze_by_strategy :: "closing_event list \<Rightarrow> py_error + win_loss_by_strategy list" where
  "analyze_by_strategy positions =
     (if positions = [] then Inr []
      else (case by_strategy_loop (strategy_groups positions) [] of
              Inl e \<Rightarrow> Inl e
            | Inr results \<Rightarrow> Inr (sort_key (\<lambda>x. - st_total_pnl x) results)))"

subsection \<open>The entry point (\<^verbatim>\<open>get_win_loss_analysis\<close>, \<^verbatim>\<open>_get_cutoff_date\<close>)\<close>

record win_loss_analysis =
  overall :: win_loss_breakdown
  by_timeframe :: "win_loss_by_timeframe list"
  by_symbol :: "win_loss_by_symbol list"
  by_strategy :: "win_loss_by_strategy list"
  time_period :: string

definition empty_analysis :: "string \<Rightarrow> win_loss_analysis" where
  "empty_analysis tp =
     \<lparr>overall = empty_breakdown, by_timeframe = [], by_symbol = [], by_strategy = [],
      time_period = tp\<rparr>"

text \<open>
  What \<^verbatim>\<open>_get_cutoff_date\<close> reads from the system clock: the instant of
  \<^verbatim>\<open>datetime.now()\<close> and the instant of \<^verbatim>\<open>datetime(now.year, 1, 1)\<close>.
\<close>

record clock =
  now :: int
  year_start :: int

definition days :: "int \<Rightarrow> timedelta" where
  "days n = n * 86400000000"

definition get_cutoff_date :: "clock \<Rightarrow> string \<Rightarrow> int" where
  "get_cutoff_date clk tp =
     (if tp = ''1m'' then now clk - days 30
      else if tp = ''3m'' then now clk - days 90
      else if tp = ''6m'' then now clk - days 180
      else if tp = ''1y'' then now clk - days 365
      else if tp = ''ytd'' then year_start clk
      else 0)"

text \<open>
  \<^verbatim>\<open>query(Trade).join(TradeAccount).filter(TradeAccount.user_id == user_id)\<close>: the
  trades whose account belongs to the user.
\<close>

definition user_trades :: "database \<Rightarrow> uuid \<Rightarrow> trade list" where
  "user_trades db uid =
     filter (\<lambda>t. list_ex (\<lambda>a. account_uid a = account_id t \<and> user_id a = uid)
                    (trade_accounts db)) (trades db)"

text \<open>Lines 285 to 294; \<^verbatim>\<open>order_by(Trade.trade_date)\<close> is taken to be stable.\<close>

definition fetch_trades :: "clock \<Rightarrow> database \<Rightarrow> uuid \<Rightarrow> string \<Rightarrow> trade list" where
  "fetch_trades clk db uid tp =
     sort_by_date
       (if tp \<noteq> ''all''
        then filter (\<lambda>t. get_cutoff_date clk tp \<le> instant (trade_date t)) (user_trades db uid)
        else user_trades db uid)"

text \<open>The body of the \<^verbatim>\<open>try\<close> block, lines 284 to 326.\<close>

definition win_loss_try :: "clock \<Rightarrow> database \<Rightarrow> uuid \<Rightarrow> string \<Rightarrow> py_error + win_loss_analysis" where
  "win_loss_try clk db uid tp =
     (let ts = fetch_trades clk db uid tp
      in if ts = [] then Inr (empty_analysis tp)
         else
           (case calculate_positions_pnl db ts of
              Inl e \<Rightarrow> Inl e
            | Inr positions_data \<Rightarrow>
               (case calculate_breakdown positions_data of
                  Inl e \<Rightarrow> Inl e
                | Inr ov \<Rightarrow>
                   (case analyze_by_timeframe positions_data of
                      Inl e \<Rightarrow> Inl e
                    | Inr tf \<Rightarrow>
                       (case analyze_by_symbol positions_data of
                          Inl e \<Rightarrow> Inl e
                        | Inr sy \<Rightarrow>
                           (case analyze_by_strategy positions_data of
                              Inl e \<Rightarrow> Inl e
                            | Inr st \<Rightarrow>
                                Inr \<lparr>overall = ov, by_timeframe = tf, by_symbol = sy,
                                     by_strategy = st, time_period = tp\<rparr>))))))"

text \<open>
  The \<^verbatim>\<open>except Exception\<close> handler, lines 328 to 337: every exception of the body
  is replaced by the empty analysis (the message printed to standard output is
  not modelled).
\<close>

definition get_win_loss_analysis ::
  "clock \<Rightarrow> database \<Rightarrow> uuid \<Rightarrow> string \<Rightarrow> py_error + win_loss_analysis" where
  "get_win_loss_analysis clk db uid tp =
     (case win_loss_try clk db uid tp of
        Inl e \<Rightarrow> Inr (empty_analysis tp)
      | Inr a \<Rightarrow> Inr a)"

subsection \<open>Dashboard statistics (\<^verbatim>\<open>get_dashboard_stats\<close>)\<close>

record dashboard_stats =
  total_trades :: nat
  total_pnl :: decimal
  ds_win_rate :: pyfloat
  total_commission :: decimal
  best_trade :: "decimal option"
  worst_trade :: "decimal option"

text \<open>
  The locals \<^verbatim>\<open>position\<close> and \<^verbatim>\<open>avg_price\<close> of one instrument, and the two
  accumulators \<^verbatim>\<open>total_pnl\<close> and \<^verbatim>\<open>winning_trades\<close> that run over all instruments.
\<close>

record dash_state =
  d_position :: decimal
  d_avg_price :: decimal
  d_total_pnl :: decimal
  d_winning_trades :: nat

text \<open>The body of the inner loop, lines 132 to 144.\<close>

definition dashboard_trade :: "trade \<Rightarrow> dash_state \<Rightarrow> py_error + dash_state" where
  "dashboard_trade t s =
     (if side t = ''BUY'' then
        (if d_position s = 0 then
           Inr (s\<lparr>d_avg_price := price t, d_position := d_position s + quantity t\<rparr>)
         else
           (case decimal_div (d_avg_price s * d_position s + price t * quantity t)
                             (d_position s + quantity t) of
              Inl e \<Rightarrow> Inl e
            | Inr a \<Rightarrow> Inr (s\<lparr>d_avg_price := a, d_position := d_position s + quantity t\<rparr>)))
      else if 0 < d_position s then
        (let pnl_v = (price t - d_avg_price s) * min (quantity t) (d_position s)
         in Inr (s\<lparr>d_total_pnl := d_total_pnl s + pnl_v,
                   d_winning_trades := (if 0 < pnl_v then d_winning_trades s + 1
                                        else d_winning_trades s),
                   d_position := d_position s - quantity t\<rparr>))
      else Inr s)"

fun dashboard_symbol_loop :: "trade list \<Rightarrow> dash_state \<Rightarrow> py_error + dash_state" where
  "dashboard_symbol_loop [] s = Inr s"
| "dashboard_symbol_loop (t # rest) s =
     (case dashboard_trade t s of Inl e \<Rightarrow> Inl e | Inr s' \<Rightarrow> dashboard_symbol_loop rest s')"

fun dashboard_loop ::
  "(string \<times> trade list) list \<Rightarrow> decimal \<times> nat \<Rightarrow> py_error + decimal \<times> nat" where
  "dashboard_loop [] acc = Inr acc"
| "dashboard_loop ((symb, symbol_trades) # rest) acc =
     (case dashboard_symbol_loop (sort_by_date symbol_trades)
             \<lparr>d_position = 0, d_avg_price = 0, d_total_pnl = fst acc,
              d_winning_trades = snd acc\<rparr> of
        Inl e \<Rightarrow> Inl e
      | Inr s \<Rightarrow> dashboard_loop rest (d_total_pnl s, d_winning_trades s))"

text \<open>\<^verbatim>\<open>max(xs, default=d)\<close> and \<^verbatim>\<open>min(xs, default=d)\<close>.\<close>

definition py_max :: "decimal list \<Rightarrow> decimal \<Rightarrow> decimal" where
  "py_max xs d = (case xs of [] \<Rightarrow> d | x # r \<Rightarrow> foldl max x r)"

definition py_min :: "decimal list \<Rightarrow> decimal \<Rightarrow> decimal" where
  "py_min xs d = (case xs of [] \<Rightarrow> d | x # r \<Rightarrow> foldl min x r)"

text \<open>
  Line 116, \<^verbatim>\<open>sum(trade.commission for trade in trades)\<close>: the sum starts from the
  \<^verbatim>\<open>int\<close> 0, and adding \<^verbatim>\<open>None\<close> raises \<^verbatim>\<open>TypeError\<close>.
\<close>

fun sum_commission :: "trade list \<Rightarrow> decimal \<Rightarrow> py_error + decimal" where
  "sum_commission [] acc = Inr acc"
| "sum_commission (t # rest) acc =
     (case commission t of None \<Rightarrow> Inl TypeError | Some c \<Rightarrow> sum_commission rest (acc + c))"

text \<open>Lines 105 to 155, on the list the query returned.\<close>

definition dashboard_stats_of :: "trade list \<Rightarrow> py_error + dashboard_stats" where
  "dashboard_stats_of ts =
     (if ts = [] then
        Inr \<lparr>total_trades = 0, total_pnl = 0, ds_win_rate = Finite 0, total_commission = 0,
             best_trade = None, worst_trade = None\<rparr>
      else
        (case sum_commission ts 0 of
           Inl e \<Rightarrow> Inl e
         | Inr total_commission_v \<Rightarrow>
        (case dashboard_loop (group_by symbol ts) (0, 0) of
           Inl e \<Rightarrow> Inl e
         | Inr (tot, winning) \<Rightarrow>
             Inr \<lparr>total_trades = length ts, total_pnl = tot,
                  ds_win_rate = py_round2 (float_mul_int (int_truediv winning (length ts)) 100),
                  total_commission = total_commission_v,
                  best_trade = Some (py_max (map (\<lambda>t. price t * quantity t) ts) 0),
                  worst_trade = Some (py_min (map (\<lambda>t. price t * quantity t) ts) 0)\<rparr>)))"

definition get_dashboard_stats :: "database \<Rightarrow> uuid \<Rightarrow> py_error + dashboard_stats" where
  "get_dashboard_stats db uid = dashboard_stats_of (user_trades db uid)"

subsection \<open>Concrete fills used below\<close>

text \<open>
  A fill of account 1 (owned by user 7) at instant \<open>ts\<close>, and a database that holds
  the given fills and no tags.
\<close>

definition fill ::
  "uuid \<Rightarrow> string \<Rightarrow> string \<Rightarrow> decimal \<Rightarrow> decimal \<Rightarrow> decimal \<Rightarrow> int \<Rightarrow> trade" where
  "fill uid symb sd q p c ts =
     \<lparr>trade_uid = uid, account_id = 1, symbol = symb, quantity = q, price = p, side = sd,
      trade_date = \<lparr>instant = ts, year_month = ''2025-01''\<rparr>, commission = Some c\<rparr>"

definition no_tags_db :: "trade list \<Rightarrow> database" where
  "no_tags_db ts =
     \<lparr>trades = ts, trade_accounts = [\<lparr>account_uid = 1, user_id = 7\<rparr>],
      trade_tags = [], trade_tag_associations = []\<rparr>"

text \<open>Scenario A of the specification, and the closing event it yields.\<close>

definition scenario_A :: "trade list" where
  "scenario_A =
     [fill 1 ''AAPL'' ''BUY'' 100 (301 / 2) 0 1,
      fill 2 ''AAPL'' ''SELL'' 50 (621 / 4) 1 2]"

definition event_A :: closing_event where
  "event_A =
     \<lparr>ev_symbol = ''AAPL'', pnl = 473 / 2,
      close_date = \<lparr>instant = 2, year_month = ''2025-01''\<rparr>, ev_quantity = 50,
      entry_price = 301 / 2, exit_price = 621 / 4, tags = [], hold_time = 1\<rparr>"

subsection \<open>Notions used to state the properties\<close>

text \<open>
  The inner loop of \<^verbatim>\<open>_calculate_positions_pnl\<close> stopped after its first \<open>n\<close>
  iterations: the lot and the results at that moment. With \<open>n\<close> the length of the
  list it is the whole loop.
\<close>

definition prefix_run ::
  "database \<Rightarrow> string \<Rightarrow> trade list \<Rightarrow> closing_event list \<Rightarrow> nat
     \<Rightarrow> py_error + open_lot \<times> closing_event list" where
  "prefix_run db symb symbol_trades position_results n =
     symbol_loop db symb symbol_trades (take n (enumerate 0 symbol_trades))
       (initial_lot, position_results)"

text \<open>
  The invariant of the lot: the open quantity is not negative, and the average price
  is 0 when nothing is open.
\<close>

definition lot_ok :: "open_lot \<Rightarrow> bool" where
  "lot_ok lot = (0 \<le> position_qty lot \<and> (position_qty lot = 0 \<longrightarrow> avg_price lot = 0))"

text \<open>The fills of one instrument, in the order they were supplied.\<close>

definition instrument_fills :: "trade list \<Rightarrow> string \<Rightarrow> trade list" where
  "instrument_fills ts symb = filter (\<lambda>t. symbol t = symb) ts"

text \<open>
  The tags of a fill in the specification's words, read off the two tag tables: the
  names of the tags that an association row attaches to the fill. It is written
  without reference to \<^verbatim>\<open>lookup_tags\<close>, which is what the code computes.
\<close>

definition fill_tags_spec :: "database \<Rightarrow> trade \<Rightarrow> string set" where
  "fill_tags_spec db t =
     {nm. \<exists>ta\<in>set (trade_tag_associations db). \<exists>tg\<in>set (trade_tags db).
            assoc_trade_id ta = trade_uid t \<and> tag_uid tg = assoc_tag_id ta \<and> tag_name tg = nm}"

text \<open>
  A closing event of instrument \<open>symb\<close> that belongs to a fill \<open>n\<close> of the sequence
  \<open>sts\<close> which is not a BUY, and takes its tags and its hold time from the last BUY
  \<open>j\<close> before \<open>n\<close>.
\<close>

definition attributed :: "database \<Rightarrow> string \<Rightarrow> trade list \<Rightarrow> closing_event \<Rightarrow> bool" where
  "attributed db symb sts ev =
     (\<exists>n j. n < length sts \<and> side (sts ! n) \<noteq> ''BUY'' \<and> ev_symbol ev = symb
        \<and> close_date ev = trade_date (sts ! n) \<and> exit_price ev = price (sts ! n)
        \<and> j < n \<and> side (sts ! j) = ''BUY''
        \<and> (\<forall>k. j < k \<and> k < n \<longrightarrow> side (sts ! k) \<noteq> ''BUY'')
        \<and> tags ev = lookup_tags db (sts ! j)
        \<and> hold_time ev = instant (trade_date (sts ! n)) - instant (trade_date (sts ! j)))"

text \<open>The P&L of a closing event before commission.\<close>

definition gross_pnl :: "closing_event \<Rightarrow> decimal" where
  "gross_pnl ev = (exit_price ev - entry_price ev) * ev_quantity ev"

text \<open>
  No BUY of the sequence comes after a SELL that asked for more than the quantity
  open when it arrived (\<open>q\<close> is the open quantity before the sequence).
\<close>

fun no_buy_after_oversell :: "decimal \<Rightarrow> trade list \<Rightarrow> bool" where
  "no_buy_after_oversell q [] = True"
| "no_buy_after_oversell q (t # rest) =
     (if side t = ''BUY'' then no_buy_after_oversell (q + quantity t) rest
      else if 0 < q then
        (if quantity t \<le> q then no_buy_after_oversell (q - quantity t) rest
         else list_all (\<lambda>u. side u \<noteq> ''BUY'') rest)
      else no_buy_after_oversell q rest)"

definition no_buy_after_oversell_all :: "trade list \<Rightarrow> bool" where
  "no_buy_after_oversell_all ts =
     list_all (\<lambda>g. no_buy_after_oversell 0 (sort_by_date (snd g))) (group_by symbol ts)"

text \<open>
  The dashboard loop and the reconstruction loop in step: same open quantity, same
  average price while a position is open, and the dashboard total is the gross P&L
  of the events emitted so far. And the two after an oversell: the dashboard's open
  quantity is negative or zero, the reconstruction's is zero.
\<close>

definition sim :: "dash_state \<Rightarrow> open_lot \<times> closing_event list \<Rightarrow> bool" where
  "sim s acc =
     (d_position s = position_qty (fst acc)
      \<and> (position_qty (fst acc) \<noteq> 0 \<longrightarrow> d_avg_price s = avg_price (fst acc))
      \<and> d_total_pnl s = sum_list (map gross_pnl (snd acc)))"

definition oversold :: "dash_state \<Rightarrow> open_lot \<times> closing_event list \<Rightarrow> bool" where
  "oversold s acc =
     (d_position s \<le> 0 \<and> position_qty (fst acc) = 0
      \<and> d_total_pnl s = sum_list (map gross_pnl (snd acc)))"

text \<open>The fill with every side other than \<open>BUY\<close> replaced by \<open>SELL\<close>.\<close>

definition as_sell :: "trade \<Rightarrow> trade" where
  "as_sell t = (if side t = ''BUY'' then t else t\<lparr>side := ''SELL''\<rparr>)"

text \<open>Scenario D of the specification (partial oversell).\<close>

definition scenario_D :: "trade list" where
  "scenario_D = [fill 1 ''MSFT'' ''BUY'' 50 10 0 1, fill 2 ''MSFT'' ''SELL'' 80 12 0 2]"

text \<open>An oversell followed by a new round trip.\<close>

definition oversell_fills :: "trade list" where
  "oversell_fills =
     [fill 1 ''MSFT'' ''BUY'' 50 10 0 1, fill 2 ''MSFT'' ''SELL'' 80 12 0 2,
      fill 3 ''MSFT'' ''BUY'' 10 20 0 3, fill 4 ''MSFT'' ''SELL'' 10 25 0 4]"

text \<open>A BUY whose commission is \<^verbatim>\<open>NULL\<close>, alone and followed by a closing SELL.\<close>

definition null_commission_buy :: "trade list" where
  "null_commission_buy = [(fill 1 ''MSFT'' ''BUY'' 10 10 0 1)\<lparr>commission := None\<rparr>]"

definition null_commission_sell :: "trade list" where
  "null_commission_sell =
     [fill 1 ''MSFT'' ''BUY'' 10 10 0 1, (fill 2 ''MSFT'' ''SELL'' 5 12 0 2)\<lparr>commission := None\<rparr>]"

text \<open>Scenario A with two tags, \<open>momentum\<close> and \<open>swing\<close>, on the opening BUY.\<close>

definition tagged_db :: database where
  "tagged_db =
     \<lparr>trades = scenario_A, trade_accounts = [\<lparr>account_uid = 1, user_id = 7\<rparr>],
      trade_tags = [\<lparr>tag_uid = 10, tag_name = ''momentum''\<rparr>,
                    \<lparr>tag_uid = 11, tag_name = ''swing''\<rparr>],
      trade_tag_associations = [\<lparr>assoc_trade_id = 1, assoc_tag_id = 10\<rparr>,
                                \<lparr>assoc_trade_id = 1, assoc_tag_id = 11\<rparr>]\<rparr>"

text \<open>
  The by-strategy rule in the specification's words: the names of the buckets an
  event goes to. And the names of the buckets of a dictionary that hold an event.
\<close>

definition bucket_names :: "closing_event \<Rightarrow> string set" where
  "bucket_names p = (if tags p = [] then {''No Strategy''} else set (tags p))"

definition buckets_holding ::
  "(string \<times> closing_event list) list \<Rightarrow> closing_event \<Rightarrow> string set" where
  "buckets_holding d p = {k. \<exists>vs. map_of d k = Some vs \<and> p \<in> set vs}"

text \<open>The closing event of Scenario A carrying two tags.\<close>

definition event_A_tagged :: closing_event where
  "event_A_tagged = event_A\<lparr>tags := [''momentum'', ''swing'']\<rparr>"

text \<open>A fill with an unknown side, and a fill with a negative quantity.\<close>

definition unknown_side_fills :: "trade list" where
  "unknown_side_fills =
     [fill 1 ''MSFT'' ''BUY'' 100 10 0 1, fill 2 ''MSFT'' ''HOLD'' 40 12 0 2]"

definition negative_qty_fills :: "trade list" where
  "negative_qty_fills =
     [fill 1 ''MSFT'' ''BUY'' (- 5) 10 0 1, fill 2 ''MSFT'' ''BUY'' 10 20 0 2,
      fill 3 ''MSFT'' ''SELL'' 5 40 0 3]"

text \<open>Closed quantity, entry price and realized P&L of a closing event.\<close>

definition event_summary :: "closing_event \<Rightarrow> decimal \<times> decimal \<times> decimal" where
  "event_summary ev = (ev_quantity ev, entry_price ev, pnl ev)"

section \<open>Properties\<close>

subsection \<open>The breakdown raises on every non-empty input\<close>

text \<open>
  Line 441 is reached for every non-empty \<^verbatim>\<open>positions\<close> and multiplies a \<^verbatim>\<open>float\<close>
  by a \<^verbatim>\<open>Decimal\<close>; nothing before it can raise.
\<close>

lemma calculate_breakdown_eq:
  "calculate_breakdown positions =
     (if positions = [] then Inr empty_breakdown else Inl TypeError)"
  by (simp add: calculate_breakdown_def float_mul_decimal_def Let_def)

lemma sum_list_nonpos: "\<forall>x\<in>set xs. x < (0::rat) \<Longrightarrow> sum_list xs \<le> 0"
  by (induction xs) (auto intro: add_nonpos_nonpos less_imp_le)

lemma sum_list_nonneg_strict: "\<forall>x\<in>set xs. (0::rat) < x \<Longrightarrow> 0 \<le> sum_list xs"
  by (induction xs) (auto intro: add_nonneg_nonneg less_imp_le)

lemma sum_list_neg: "xs \<noteq> [] \<Longrightarrow> \<forall>x\<in>set xs. x < (0::rat) \<Longrightarrow> sum_list xs < 0"
  by (cases xs) (auto intro: add_neg_nonpos sum_list_nonpos)

lemma sum_list_pos: "xs \<noteq> [] \<Longrightarrow> \<forall>x\<in>set xs. (0::rat) < x \<Longrightarrow> 0 < sum_list xs"
  by (cases xs) (auto intro: add_pos_nonneg sum_list_nonneg_strict)

lemma total_losses_pos: "(0 < total_losses ps) = (losses_of ps \<noteq> [])"
proof (cases "losses_of ps = []")
  case True
  then show ?thesis by (simp add: total_losses_def)
next
  case False
  have "sum_list (map pnl (losses_of ps)) < 0"
    by (rule sum_list_neg) (use False in \<open>auto simp: losses_of_def\<close>)
  with False show ?thesis by (simp add: total_losses_def)
qed

lemma total_wins_pos: "(0 < total_wins ps) = (wins_of ps \<noteq> [])"
proof (cases "wins_of ps = []")
  case True
  then show ?thesis by (simp add: total_wins_def)
next
  case False
  have "0 < sum_list (map pnl (wins_of ps))"
    by (rule sum_list_pos) (use False in \<open>auto simp: wins_of_def\<close>)
  with False show ?thesis by (simp add: total_wins_def)
qed

lemma profit_factor_of_cases:
  "profit_factor_of ps =
     (if losses_of ps \<noteq> []
      then Finite (sum_list (map pnl (wins_of ps)) / \<bar>sum_list (map pnl (losses_of ps))\<bar>)
      else if wins_of ps \<noteq> [] then Infinity else Finite 0)"
  unfolding profit_factor_of_def total_losses_pos total_wins_pos
  by (auto simp: total_wins_def total_losses_def)

subsection \<open>Groups are never empty\<close>

lemma dict_append_nonempty: "dict_append k v d \<noteq> []"
  by (induction k v d rule: dict_append.induct) auto

lemma dict_append_groups:
  "list_all (\<lambda>g. snd g \<noteq> []) d \<Longrightarrow> list_all (\<lambda>g. snd g \<noteq> []) (dict_append k v d)"
  by (induction k v d rule: dict_append.induct) simp_all

lemma foldl_dict_groups:
  "list_all (\<lambda>g. snd g \<noteq> []) d \<Longrightarrow>
   list_all (\<lambda>g. snd g \<noteq> []) (foldl (\<lambda>d x. dict_append (key x) x d) d xs)"
  by (induction xs arbitrary: d) (simp_all add: dict_append_groups)

lemma foldl_dict_nonempty:
  "d \<noteq> [] \<or> xs \<noteq> [] \<Longrightarrow> foldl (\<lambda>d x. dict_append (key x) x d) d xs \<noteq> []"
  by (induction xs arbitrary: d) (auto simp: dict_append_nonempty)

lemma group_by_groups: "list_all (\<lambda>g. snd g \<noteq> []) (group_by key xs)"
  unfolding group_by_def by (rule foldl_dict_groups) simp

lemma group_by_nonempty: "xs \<noteq> [] \<Longrightarrow> group_by key xs \<noteq> []"
  unfolding group_by_def by (rule foldl_dict_nonempty) simp

lemma timeframe_loop_raises:
  "gs \<noteq> [] \<Longrightarrow> list_all (\<lambda>g. snd g \<noteq> []) gs \<Longrightarrow> timeframe_loop gs results = Inl TypeError"
  by (cases gs) (auto simp: calculate_breakdown_eq)

lemma by_symbol_loop_raises:
  "gs \<noteq> [] \<Longrightarrow> list_all (\<lambda>g. snd g \<noteq> []) gs \<Longrightarrow> by_symbol_loop gs results = Inl TypeError"
  by (cases gs) (auto simp: calculate_breakdown_eq)

lemma by_strategy_loop_raises:
  "gs \<noteq> [] \<Longrightarrow> list_all (\<lambda>g. snd g \<noteq> []) gs \<Longrightarrow> by_strategy_loop gs results = Inl TypeError"
  by (cases gs) (auto simp: calculate_breakdown_eq)

lemma analyze_by_timeframe_eq:
  "analyze_by_timeframe positions = (if positions = [] then Inr [] else Inl TypeError)"
proof (cases "positions = []")
  case True
  then show ?thesis by (simp add: analyze_by_timeframe_def)
next
  case False
  have "monthly_groups positions \<noteq> []"
    using group_by_nonempty[OF False] by (simp add: monthly_groups_def)
  then have "sort_key fst (monthly_groups positions) \<noteq> []"
    by (metis length_0_conv length_sort)
  moreover have "list_all (\<lambda>g. snd g \<noteq> []) (sort_key fst (monthly_groups positions))"
    using group_by_groups[of "\<lambda>pos. year_month (close_date pos)" positions]
    by (simp add: monthly_groups_def list_all_iff)
  ultimately show ?thesis using False
    by (simp add: analyze_by_timeframe_def timeframe_loop_raises)
qed

lemma analyze_by_symbol_eq:
  "analyze_by_symbol positions = (if positions = [] then Inr [] else Inl TypeError)"
  using group_by_nonempty[of positions ev_symbol] group_by_groups[of ev_symbol positions]
  by (simp add: analyze_by_symbol_def symbol_groups_def by_symbol_loop_raises)

lemma foldl_tags_groups:
  "list_all (\<lambda>g. snd g \<noteq> []) d \<Longrightarrow>
   list_all (\<lambda>g. snd g \<noteq> []) (foldl (\<lambda>d' tag. dict_append tag pos d') d tgs)"
  by (induction tgs arbitrary: d) (simp_all add: dict_append_groups)

lemma foldl_tags_nonempty:
  "d \<noteq> [] \<or> tgs \<noteq> [] \<Longrightarrow> foldl (\<lambda>d' tag. dict_append tag pos d') d tgs \<noteq> []"
  by (induction tgs arbitrary: d) (auto simp: dict_append_nonempty)

lemma strategy_add_groups:
  "list_all (\<lambda>g. snd g \<noteq> []) d \<Longrightarrow> list_all (\<lambda>g. snd g \<noteq> []) (strategy_add d pos)"
  unfolding strategy_add_def by (simp add: foldl_tags_groups dict_append_groups)

lemma strategy_add_nonempty: "strategy_add d pos \<noteq> []"
  unfolding strategy_add_def by (simp add: foldl_tags_nonempty dict_append_nonempty)

lemma foldl_strategy_groups:
  "list_all (\<lambda>g. snd g \<noteq> []) d \<Longrightarrow> list_all (\<lambda>g. snd g \<noteq> []) (foldl strategy_add d ps)"
  by (induction ps arbitrary: d) (simp_all add: strategy_add_groups)

lemma foldl_strategy_nonempty: "d \<noteq> [] \<or> ps \<noteq> [] \<Longrightarrow> foldl strategy_add d ps \<noteq> []"
  by (induction ps arbitrary: d) (auto simp: strategy_add_nonempty)

lemma analyze_by_strategy_eq:
  "analyze_by_strategy positions = (if positions = [] then Inr [] else Inl TypeError)"
  using foldl_strategy_nonempty[of "[]" positions] foldl_strategy_groups[of "[]" positions]
  by (simp add: analyze_by_strategy_def strategy_groups_def by_strategy_loop_raises)

text \<open>
  Hence the entry point returns the empty analysis whatever the fills are: an
  empty list of closing events gives it directly, and a non-empty one raises in
  \<^verbatim>\<open>_calculate_breakdown\<close>, which the handler turns into the empty analysis.
\<close>

lemma win_loss_always_empty: "get_win_loss_analysis clk db uid tp = Inr (empty_analysis tp)"
  by (simp add: get_win_loss_analysis_def win_loss_try_def Let_def calculate_breakdown_eq
      analyze_by_timeframe_eq analyze_by_symbol_eq analyze_by_strategy_eq empty_analysis_def
      split: sum.splits)

subsection \<open>Scenario A\<close>

lemma scenario_A_positions:
  "calculate_positions_pnl (no_tags_db scenario_A) scenario_A = Inr [event_A]"
  by (simp add: calculate_positions_pnl_def group_by_def scenario_A_def fill_def symbol_run_def
      sort_by_date_def process_trade_def initial_lot_def event_A_def Let_def lookup_tags_def
      no_tags_db_def)

text \<open>
  C1. Scenario A (BUY 100 at 150.50 with commission 0, then SELL 50 at 155.25 with
  commission 1.00). The reconstruction emits exactly one closing event, with closed
  quantity 50, entry price 150.50, exit price 155.25 and realized P&L 236.50, and the
  locals of the breakdown are the ones the claim names (one win, no loss, win rate
  100, average win 236.50, profit factor \<open>+inf\<close>). But the breakdown itself is never
  returned: the expectancy line raises \<^verbatim>\<open>TypeError\<close>.
\<close>

theorem scenario_A_breakdown_raises:
  "calculate_positions_pnl (no_tags_db scenario_A) scenario_A = Inr [event_A]
   \<and> ev_quantity event_A = 50 \<and> entry_price event_A = 150.50 \<and> exit_price event_A = 155.25
   \<and> pnl event_A = (155.25 - 150.50) * 50 - 1.00 \<and> pnl event_A = 236.50
   \<and> length (wins_of [event_A]) = 1 \<and> length (losses_of [event_A]) = 0
   \<and> win_rate_of [event_A] = Finite 100 \<and> avg_win_of [event_A] = 236.50
   \<and> profit_factor_of [event_A] = Infinity
   \<and> calculate_breakdown [event_A] = Inl TypeError"
proof -
  have "length (wins_of [event_A]) = 1 \<and> length (losses_of [event_A]) = 0
        \<and> win_rate_of [event_A] = Finite 100 \<and> avg_win_of [event_A] = 236.50
        \<and> profit_factor_of [event_A] = Infinity"
    by (simp add: wins_of_def losses_of_def win_rate_of_def avg_win_of_def profit_factor_of_def
        total_wins_def total_losses_def event_A_def int_truediv_def float_mul_int_def)
  moreover have "ev_quantity event_A = 50 \<and> entry_price event_A = 150.50
        \<and> exit_price event_A = 155.25 \<and> pnl event_A = (155.25 - 150.50) * 50 - 1.00
        \<and> pnl event_A = 236.50"
    by (simp add: event_A_def)
  ultimately show ?thesis
    using scenario_A_positions by (simp add: calculate_breakdown_eq)
qed

subsection \<open>The breakdown's sentinels\<close>

text \<open>
  C4. For every collection of closing events, the profit factor computed at line 436
  is \<open>+inf\<close> exactly when there is no losing event and some winning event, the quotient
  of the summed wins by the absolute summed losses when there is a losing event, and 0
  when there is neither; the average win and the average loss are 0 when there is no
  win, respectively no loss; and the empty collection yields the all-zero breakdown.
  But no breakdown carrying these values is ever returned: on every non-empty
  collection \<^verbatim>\<open>_calculate_breakdown\<close> raises \<^verbatim>\<open>TypeError\<close> at the expectancy line.
\<close>

theorem breakdown_sentinels_then_raises:
  "profit_factor_of ps =
     (if losses_of ps \<noteq> []
      then Finite (sum_list (map pnl (wins_of ps)) / \<bar>sum_list (map pnl (losses_of ps))\<bar>)
      else if wins_of ps \<noteq> [] then Infinity else Finite 0)
   \<and> (profit_factor_of ps = Infinity) = (losses_of ps = [] \<and> wins_of ps \<noteq> [])
   \<and> avg_win_of ps =
       (if wins_of ps = [] then 0
        else sum_list (map pnl (wins_of ps)) / of_nat (length (wins_of ps)))
   \<and> avg_loss_of ps =
       (if losses_of ps = [] then 0
        else \<bar>sum_list (map pnl (losses_of ps))\<bar> / of_nat (length (losses_of ps)))
   \<and> win_rate_of [] = Finite 0
   \<and> calculate_breakdown [] = Inr empty_breakdown
   \<and> wins empty_breakdown = 0 \<and> losses empty_breakdown = 0 \<and> breakeven empty_breakdown = 0
   \<and> win_rate empty_breakdown = Finite 0 \<and> avg_win empty_breakdown = 0
   \<and> avg_loss empty_breakdown = 0 \<and> profit_factor empty_breakdown = Finite 0
   \<and> expectancy empty_breakdown = 0
   \<and> calculate_breakdown ps = (if ps = [] then Inr empty_breakdown else Inl TypeError)"
  by (simp add: profit_factor_of_cases calculate_breakdown_eq avg_win_of_def avg_loss_of_def
      total_wins_def total_losses_def win_rate_of_def empty_breakdown_def)

subsection \<open>The entry point swallows every exception\<close>

text \<open>
  C10. For every clock, database, user and time period, \<^verbatim>\<open>get_win_loss_analysis\<close>
  returns a value and raises nothing; whenever the body of its \<^verbatim>\<open>try\<close> block raises,
  the value is the analysis with the all-zero breakdown, three empty views and the
  requested time period; and that is also what it returns for a database without fills.
\<close>

theorem get_win_loss_analysis_never_raises:
  "(\<exists>a. get_win_loss_analysis clk db uid tp = Inr a)
   \<and> (\<forall>e. win_loss_try clk db uid tp = Inl e \<longrightarrow>
          get_win_loss_analysis clk db uid tp = Inr (empty_analysis tp))
   \<and> get_win_loss_analysis clk (db\<lparr>trades := []\<rparr>) uid tp = Inr (empty_analysis tp)
   \<and> overall (empty_analysis tp) = empty_breakdown \<and> by_timeframe (empty_analysis tp) = []
   \<and> by_symbol (empty_analysis tp) = [] \<and> by_strategy (empty_analysis tp) = []
   \<and> time_period (empty_analysis tp) = tp"
proof -
  have "get_win_loss_analysis clk (db\<lparr>trades := []\<rparr>) uid tp = Inr (empty_analysis tp)"
    by (simp add: get_win_loss_analysis_def win_loss_try_def fetch_trades_def user_trades_def
        sort_by_date_def)
  moreover have "\<exists>a. get_win_loss_analysis clk db uid tp = Inr a"
    by (simp add: get_win_loss_analysis_def split: sum.splits)
  moreover have "\<forall>e. win_loss_try clk db uid tp = Inl e \<longrightarrow>
          get_win_loss_analysis clk db uid tp = Inr (empty_analysis tp)"
    by (simp add: get_win_loss_analysis_def)
  ultimately show ?thesis by (simp add: empty_analysis_def)
qed

theorem get_win_loss_analysis_never_raises_witness:
  "win_loss_try \<lparr>now = 5, year_start = 0\<rparr> (no_tags_db scenario_A) 7 ''all'' = Inl TypeError
   \<and> get_win_loss_analysis \<lparr>now = 5, year_start = 0\<rparr> (no_tags_db scenario_A) 7 ''all''
       = Inr (empty_analysis ''all'')"
proof -
  have fetch: "fetch_trades \<lparr>now = 5, year_start = 0\<rparr> (no_tags_db scenario_A) 7 ''all''
                 = scenario_A"
    by (simp add: fetch_trades_def user_trades_def no_tags_db_def scenario_A_def fill_def
        sort_by_date_def)
  have "scenario_A \<noteq> []" by (simp add: scenario_A_def)
  then have raises:
    "win_loss_try \<lparr>now = 5, year_start = 0\<rparr> (no_tags_db scenario_A) 7 ''all'' = Inl TypeError"
    using scenario_A_positions
    by (simp add: win_loss_try_def fetch Let_def calculate_breakdown_eq)
  with get_win_loss_analysis_never_raises
         [of "\<lparr>now = 5, year_start = 0\<rparr>" "no_tags_db scenario_A" 7 "''all''"]
  show ?thesis by simp
qed


subsection \<open>The reconstruction loop, step by step\<close>

lemma symbol_loop_append:
  "symbol_loop db symb sts (xs @ ys) acc =
     (case symbol_loop db symb sts xs acc of Inl e \<Rightarrow> Inl e
      | Inr acc' \<Rightarrow> symbol_loop db symb sts ys acc')"
  by (induction xs arbitrary: acc) (auto split: sum.splits)

lemma prefix_run_0: "prefix_run db symb sts rs 0 = Inr (initial_lot, rs)"
  by (simp add: prefix_run_def)

lemma prefix_run_Suc:
  assumes "n < length sts"
  shows "prefix_run db symb sts rs (Suc n) =
     (case prefix_run db symb sts rs n of Inl e \<Rightarrow> Inl e
      | Inr acc \<Rightarrow> process_trade db symb sts n (sts ! n) acc)"
proof -
  have "take (Suc n) (enumerate 0 sts) = take n (enumerate 0 sts) @ [(n, sts ! n)]"
    using assms by (simp add: take_Suc_conv_app_nth nth_enumerate_eq)
  then show ?thesis
    by (simp add: prefix_run_def symbol_loop_append split: sum.splits)
qed

lemma prefix_run_full:
  "prefix_run db symb sts rs (length sts) = symbol_loop db symb sts (enumerate 0 sts) (initial_lot, rs)"
  by (simp add: prefix_run_def)

lemma process_trade_buy:
  assumes "side t = ''BUY''" "lot_ok lot" "0 < quantity t"
  shows "\<exists>a. process_trade db symb sts i t (lot, res)
            = Inr (\<lparr>position_qty = position_qty lot + quantity t, avg_price = a\<rparr>, res)"
  using assms by (auto simp: process_trade_def decimal_div_def lot_ok_def)

lemma process_trade_sell_flat:
  assumes "side t \<noteq> ''BUY''" "position_qty lot = 0"
  shows "process_trade db symb sts i t (lot, res) = Inr (lot, res)"
  using assms by (simp add: process_trade_def)

lemma process_trade_sell_open:
  assumes "side t \<noteq> ''BUY''" "0 < position_qty lot" "commission t = Some c"
  shows "\<exists>ev. process_trade db symb sts i t (lot, res)
            = Inr (\<lparr>position_qty = position_qty lot - ev_quantity ev,
                    avg_price = (if position_qty lot - ev_quantity ev = 0 then 0 else avg_price lot)\<rparr>,
                   res @ [ev])
          \<and> ev_quantity ev = min (quantity t) (position_qty lot)
          \<and> pnl ev = (price t - avg_price lot) * ev_quantity ev - c
          \<and> entry_price ev = avg_price lot \<and> exit_price ev = price t"
  using assms by (simp add: process_trade_def Let_def)

lemma process_trade_null_commission:
  assumes "side t \<noteq> ''BUY''" "0 < position_qty lot" "commission t = None"
  shows "process_trade db symb sts i t (lot, res) = Inl TypeError"
  using assms by (simp add: process_trade_def)

lemma process_trade_ok:
  assumes "lot_ok lot" "0 < quantity t" "side t \<noteq> ''BUY'' \<longrightarrow> commission t \<noteq> None"
  shows "\<exists>lot' res'. process_trade db symb sts i t (lot, res) = Inr (lot', res') \<and> lot_ok lot'"
proof (cases "side t = ''BUY''")
  case True
  from process_trade_buy[OF True assms(1,2), of db symb sts i res] assms show ?thesis
    by (auto simp: lot_ok_def)
next
  case False
  show ?thesis
  proof (cases "position_qty lot = 0")
    case True
    with False assms show ?thesis by (simp add: process_trade_sell_flat)
  next
    case False
    with assms have pos: "0 < position_qty lot" by (simp add: lot_ok_def)
    from \<open>side t \<noteq> ''BUY''\<close> assms(3) obtain c where c: "commission t = Some c" by auto
    from process_trade_sell_open[OF \<open>side t \<noteq> ''BUY''\<close> pos c, of db symb sts i res]
    show ?thesis using assms by (auto simp: lot_ok_def min_def)
  qed
qed

lemma prefix_run_ok:
  assumes "\<forall>t\<in>set sts. 0 < quantity t \<and> (side t \<noteq> ''BUY'' \<longrightarrow> commission t \<noteq> None)"
    and "n \<le> length sts"
  shows "\<exists>lot res. prefix_run db symb sts rs n = Inr (lot, res) \<and> lot_ok lot"
  using assms(2)
proof (induction n)
  case 0
  show ?case by (simp add: prefix_run_0 lot_ok_def initial_lot_def)
next
  case (Suc n)
  then obtain lot res where run: "prefix_run db symb sts rs n = Inr (lot, res)" and ok: "lot_ok lot"
    by auto
  from Suc.prems have n: "n < length sts" by simp
  with assms(1) have "0 < quantity (sts ! n)"
    and "side (sts ! n) \<noteq> ''BUY'' \<longrightarrow> commission (sts ! n) \<noteq> None" by simp_all
  from process_trade_ok[OF ok this, of db symb sts n res] show ?case
    by (simp add: prefix_run_Suc[OF n] run)
qed

lemma symbol_run_prefix:
  "symbol_run db symb ts rs = prefix_run db symb (sort_by_date ts) rs (length ts)"
  by (simp add: symbol_run_def prefix_run_def sort_by_date_def Let_def)


text \<open>
  C3. For every instrument's fill sequence whose quantities are positive and whose
  fills other than BUYs carry a commission (the TradeFill data model), at every step
  \<open>n\<close> of the reconstruction: the loop has not raised; the open quantity is
  non-negative before and after the step, and the average price is 0 whenever the
  open quantity is 0; a BUY emits nothing; a SELL arriving at open quantity 0 emits
  nothing and leaves the lot unchanged; a SELL arriving at a positive open quantity
  emits exactly one closing event whose closed quantity is the minimum of the SELL's
  quantity and the open quantity (so never more than the open quantity), the open
  quantity decreases by the closed quantity only (the rest of the SELL is dropped),
  and the average price becomes 0 if the open quantity has reached 0 and is unchanged
  otherwise.
\<close>

theorem open_quantity_invariants:
  assumes "\<forall>t\<in>set sts. 0 < quantity t \<and> (side t \<noteq> ''BUY'' \<longrightarrow> commission t \<noteq> None)"
    and "n < length sts"
  shows "\<exists>lot res lot' res'.
     prefix_run db symb sts rs n = Inr (lot, res)
     \<and> prefix_run db symb sts rs (Suc n) = Inr (lot', res')
     \<and> 0 \<le> position_qty lot \<and> 0 \<le> position_qty lot'
     \<and> (position_qty lot = 0 \<longrightarrow> avg_price lot = 0)
     \<and> (side (sts ! n) = ''BUY'' \<longrightarrow>
          res' = res \<and> position_qty lot' = position_qty lot + quantity (sts ! n))
     \<and> (side (sts ! n) \<noteq> ''BUY'' \<and> position_qty lot = 0 \<longrightarrow> lot' = lot \<and> res' = res)
     \<and> (side (sts ! n) \<noteq> ''BUY'' \<and> position_qty lot \<noteq> 0 \<longrightarrow>
          (\<exists>ev. res' = res @ [ev]
             \<and> ev_quantity ev = min (quantity (sts ! n)) (position_qty lot)
             \<and> ev_quantity ev \<le> position_qty lot
             \<and> position_qty lot' = position_qty lot - ev_quantity ev
             \<and> avg_price lot' = (if position_qty lot' = 0 then 0 else avg_price lot)))"
proof -
  from prefix_run_ok[OF assms(1), of n db symb rs] assms(2)
  obtain lot res where run: "prefix_run db symb sts rs n = Inr (lot, res)" and ok: "lot_ok lot"
    by auto
  have q: "0 < quantity (sts ! n)" using assms by simp
  have step: "prefix_run db symb sts rs (Suc n) = process_trade db symb sts n (sts ! n) (lot, res)"
    by (simp add: prefix_run_Suc[OF assms(2)] run)
  show ?thesis
  proof (cases "side (sts ! n) = ''BUY''")
    case True
    from process_trade_buy[OF True ok q, of db symb sts n res]
    obtain a where
      "prefix_run db symb sts rs (Suc n)
         = Inr (\<lparr>position_qty = position_qty lot + quantity (sts ! n), avg_price = a\<rparr>, res)"
      by (auto simp: step)
    with True ok q run show ?thesis
      by (intro exI[of _ lot] exI[of _ res]
          exI[of _ "\<lparr>position_qty = position_qty lot + quantity (sts ! n), avg_price = a\<rparr>"])
        (simp add: lot_ok_def)
  next
    case sell: False
    show ?thesis
    proof (cases "position_qty lot = 0")
      case True
      with sell ok run show ?thesis
        by (intro exI[of _ lot] exI[of _ res])
          (simp add: step process_trade_sell_flat lot_ok_def)
    next
      case False
      with ok have pos: "0 < position_qty lot" by (simp add: lot_ok_def)
      from sell assms obtain c where c: "commission (sts ! n) = Some c" by auto
      from process_trade_sell_open[OF sell pos c, of db symb sts n res]
      obtain ev where
        ev: "process_trade db symb sts n (sts ! n) (lot, res)
            = Inr (\<lparr>position_qty = position_qty lot - ev_quantity ev,
                    avg_price = (if position_qty lot - ev_quantity ev = 0 then 0
                                 else avg_price lot)\<rparr>,
                   res @ [ev])"
        and evq: "ev_quantity ev = min (quantity (sts ! n)) (position_qty lot)"
        by blast
      from evq have le: "ev_quantity ev \<le> position_qty lot" by simp
      let ?lot' = "\<lparr>position_qty = position_qty lot - ev_quantity ev,
                    avg_price = (if position_qty lot - ev_quantity ev = 0 then 0
                                 else avg_price lot)\<rparr>"
      from sell False ok evq le run show ?thesis
        by (intro exI[of _ lot] exI[of _ res] exI[of _ ?lot'] exI[of _ "res @ [ev]"])
          (simp add: step ev lot_ok_def)
    qed
  qed
qed



theorem open_quantity_invariants_witness:
  "list_all (\<lambda>t. 0 < quantity t) scenario_D \<and> Suc 0 < length scenario_D
   \<and> (\<exists>lot res lot' res' ev.
         prefix_run (no_tags_db scenario_D) ''MSFT'' scenario_D [] (Suc 0) = Inr (lot, res)
         \<and> prefix_run (no_tags_db scenario_D) ''MSFT'' scenario_D [] (Suc (Suc 0))
             = Inr (lot', res')
         \<and> position_qty lot = 50 \<and> res = [] \<and> res' = [ev] \<and> ev_quantity ev = 50
         \<and> position_qty lot' = 0 \<and> avg_price lot' = 0)"
proof -
  have pos: "\<forall>t\<in>set scenario_D.
               0 < quantity t \<and> (side t \<noteq> ''BUY'' \<longrightarrow> commission t \<noteq> None)"
    and len: "Suc 0 < length scenario_D"
    by (simp_all add: scenario_D_def fill_def)
  have run1: "prefix_run (no_tags_db scenario_D) ''MSFT'' scenario_D [] (Suc 0)
                = Inr (\<lparr>position_qty = 50, avg_price = 10\<rparr>, [])"
    by (simp add: prefix_run_def scenario_D_def fill_def process_trade_def initial_lot_def)
  have sell: "side (scenario_D ! Suc 0) \<noteq> ''BUY''" and q: "quantity (scenario_D ! Suc 0) = 80"
    by (simp_all add: scenario_D_def fill_def)
  from open_quantity_invariants[OF pos len, of "no_tags_db scenario_D" "''MSFT''" "[]"]
  obtain lot res lot' res' where
    r1: "prefix_run (no_tags_db scenario_D) ''MSFT'' scenario_D [] (Suc 0) = Inr (lot, res)"
    and r2: "prefix_run (no_tags_db scenario_D) ''MSFT'' scenario_D [] (Suc (Suc 0))
               = Inr (lot', res')"
    and sc: "side (scenario_D ! Suc 0) \<noteq> ''BUY'' \<and> position_qty lot \<noteq> 0 \<longrightarrow>
          (\<exists>ev. res' = res @ [ev]
             \<and> ev_quantity ev = min (quantity (scenario_D ! Suc 0)) (position_qty lot)
             \<and> ev_quantity ev \<le> position_qty lot
             \<and> position_qty lot' = position_qty lot - ev_quantity ev
             \<and> avg_price lot' = (if position_qty lot' = 0 then 0 else avg_price lot))"
    by blast
  from r1 run1 have lot: "position_qty lot = 50" "res = []" by auto
  with sc sell q obtain ev where
    "res' = [ev]" "ev_quantity ev = 50" "position_qty lot' = 0" "avg_price lot' = 0"
    by auto
  with r1 r2 lot len show ?thesis
    by (auto simp: scenario_D_def fill_def)
qed

subsection \<open>Dictionaries of lists, key by key\<close>

lemma keys_dict_append: "fst ` set (dict_append k v d) = insert k (fst ` set d)"
  by (induction k v d rule: dict_append.induct) auto

lemma distinct_dict_append: "distinct (map fst d) \<Longrightarrow> distinct (map fst (dict_append k v d))"
  by (induction k v d rule: dict_append.induct) (simp_all add: keys_dict_append)

lemma map_of_dict_append:
  "map_of (dict_append k v d)
     = (map_of d)(k \<mapsto> (case map_of d k of None \<Rightarrow> [v] | Some vs \<Rightarrow> vs @ [v]))"
  by (induction k v d rule: dict_append.induct) (auto simp: fun_upd_twist)

lemma group_by_snoc: "group_by key (xs @ [x]) = dict_append (key x) x (group_by key xs)"
  by (simp add: group_by_def)

lemma distinct_group_by: "distinct (map fst (group_by key xs))"
proof (induction xs rule: rev_induct)
  case Nil
  show ?case by (simp add: group_by_def)
next
  case (snoc x xs)
  then show ?case by (simp add: group_by_snoc distinct_dict_append)
qed

lemma map_of_group_by:
  "map_of (group_by key xs) k
     = (if k \<in> key ` set xs then Some (filter (\<lambda>x. key x = k) xs) else None)"
proof (induction xs rule: rev_induct)
  case Nil
  show ?case by (simp add: group_by_def)
next
  case (snoc x xs)
  then show ?case
    by (auto simp: group_by_snoc map_of_dict_append filter_empty_conv image_iff) metis+
qed

lemma group_by_member:
  assumes "(k, g) \<in> set (group_by key xs)"
  shows "g = filter (\<lambda>x. key x = k) xs"
proof -
  from assms have "map_of (group_by key xs) k = Some g"
    using distinct_group_by[of key xs] by simp
  then show ?thesis by (simp add: map_of_group_by split: if_splits)
qed

subsection \<open>Tags and hold time of a closing event\<close>

lemma find_distinct:
  "distinct (map f xs) \<Longrightarrow> x \<in> set xs \<Longrightarrow> find (\<lambda>y. f y = f x) xs = Some x"
  by (induction xs) force+

lemma lookup_tags_spec:
  assumes "distinct (map tag_uid (trade_tags db))"
  shows "set (lookup_tags db t) = fill_tags_spec db t"
proof (intro set_eqI iffI)
  fix nm assume "nm \<in> set (lookup_tags db t)"
  then obtain ta where ta: "ta \<in> set (trade_tag_associations db)" "assoc_trade_id ta = trade_uid t"
    and nm: "nm \<in> set (case find (\<lambda>tg. tag_uid tg = assoc_tag_id ta) (trade_tags db) of
                          None \<Rightarrow> [] | Some tg \<Rightarrow> [tag_name tg])"
    by (auto simp: lookup_tags_def Let_def)
  from nm obtain tg where f: "find (\<lambda>tg. tag_uid tg = assoc_tag_id ta) (trade_tags db) = Some tg"
    and "nm = tag_name tg"
    by (cases "find (\<lambda>tg. tag_uid tg = assoc_tag_id ta) (trade_tags db)") auto
  from f have "tg \<in> set (trade_tags db)" "tag_uid tg = assoc_tag_id ta"
    by (auto simp: find_Some_iff)
  with ta \<open>nm = tag_name tg\<close> show "nm \<in> fill_tags_spec db t"
    by (auto simp: fill_tags_spec_def)
next
  fix nm assume "nm \<in> fill_tags_spec db t"
  then obtain ta tg where ta: "ta \<in> set (trade_tag_associations db)"
      "assoc_trade_id ta = trade_uid t"
    and tg: "tg \<in> set (trade_tags db)" "tag_uid tg = assoc_tag_id ta" "tag_name tg = nm"
    by (auto simp: fill_tags_spec_def)
  from find_distinct[OF assms tg(1)] tg(2)
  have "find (\<lambda>y. tag_uid y = assoc_tag_id ta) (trade_tags db) = Some tg" by simp
  with ta tg(3) show "nm \<in> set (lookup_tags db t)"
    by (force simp: lookup_tags_def Let_def)
qed

lemma filter_take_last:
  assumes "j < n" "n \<le> length xs" "P (xs ! j)" "\<forall>k. j < k \<and> k < n \<longrightarrow> \<not> P (xs ! k)"
  shows "filter P (take n xs) \<noteq> [] \<and> last (filter P (take n xs)) = xs ! j"
proof -
  let ?ys = "take n xs"
  have len: "j < length ?ys" using assms by simp
  have split: "?ys = take j ?ys @ ?ys ! j # drop (Suc j) ?ys"
    using len by (rule id_take_nth_drop)
  have nth: "?ys ! j = xs ! j" using assms by simp
  have "\<forall>y\<in>set (drop (Suc j) ?ys). \<not> P y"
  proof
    fix y assume "y \<in> set (drop (Suc j) ?ys)"
    then obtain i where i: "i < length (drop (Suc j) ?ys)" and y: "y = drop (Suc j) ?ys ! i"
      by (auto simp: in_set_conv_nth)
    from i assms have "Suc j + i < n" by simp
    moreover from i y assms have "y = xs ! (Suc j + i)" by simp
    ultimately show "\<not> P y" using assms(4) by simp
  qed
  then have "filter P (drop (Suc j) ?ys) = []" by (simp add: filter_empty_conv)
  then have "filter P ?ys = filter P (take j ?ys) @ [xs ! j]"
    using assms(3) nth by (subst split) simp
  then show ?thesis by simp
qed

lemma last_index_ex:
  "\<exists>j<n::nat. P j \<Longrightarrow> \<exists>j<n. P j \<and> (\<forall>k. j < k \<and> k < n \<longrightarrow> \<not> P k)"
proof (induction n)
  case 0
  then show ?case by simp
next
  case (Suc n)
  show ?case
  proof (cases "P n")
    case True
    then show ?thesis by (intro exI[of _ n]) auto
  next
    case False
    with Suc.prems have "\<exists>j<n. P j" by (metis less_Suc_eq)
    from Suc.IH[OF this] obtain j where "j < n" "P j" "\<forall>k. j < k \<and> k < n \<longrightarrow> \<not> P k" by blast
    with False show ?thesis by (intro exI[of _ j]) (auto simp: less_Suc_eq)
  qed
qed

lemma process_trade_emits:
  assumes "process_trade db symb sts i t (lot, res) = Inr (lot', res')" "res' \<noteq> res"
  shows "side t \<noteq> ''BUY'' \<and> 0 < position_qty lot \<and>
     (\<exists>ev. res' = res @ [ev] \<and> ev_symbol ev = symb \<and> close_date ev = trade_date t
        \<and> exit_price ev = price t
        \<and> tags ev = (if filter (\<lambda>u. side u = ''BUY'') (take i sts) \<noteq> []
                      then lookup_tags db (last (filter (\<lambda>u. side u = ''BUY'') (take i sts)))
                      else [])
        \<and> hold_time ev = (if filter (\<lambda>u. side u = ''BUY'') (take i sts) \<noteq> []
                      then instant (trade_date t)
                           - instant (trade_date (last (filter (\<lambda>u. side u = ''BUY'') (take i sts))))
                      else 0))"
  using assms
  by (auto simp: process_trade_def Let_def split: if_splits sum.splits option.splits)

lemma prefix_run_Suc_Inr:
  assumes "n < length sts" "prefix_run db symb sts rs (Suc n) = Inr acc'"
  shows "\<exists>acc. prefix_run db symb sts rs n = Inr acc
           \<and> process_trade db symb sts n (sts ! n) acc = Inr acc'"
  using assms(2) by (auto simp: prefix_run_Suc[OF assms(1)] split: sum.splits)

lemma prefix_run_no_buy:
  assumes "n \<le> length sts" "\<forall>j<n. side (sts ! j) \<noteq> ''BUY''"
    and "prefix_run db symb sts rs n = Inr (lot, res)"
  shows "lot = initial_lot \<and> res = rs"
  using assms
proof (induction n arbitrary: lot res)
  case 0
  then show ?case by (simp add: prefix_run_0)
next
  case (Suc n)
  from Suc.prems have n: "n < length sts" by simp
  from prefix_run_Suc_Inr[OF n Suc.prems(3)] obtain lot0 res0 where
    r: "prefix_run db symb sts rs n = Inr (lot0, res0)"
    and p: "process_trade db symb sts n (sts ! n) (lot0, res0) = Inr (lot, res)" by auto
  from Suc.IH[OF _ _ r] Suc.prems have "lot0 = initial_lot" "res0 = rs" by simp_all
  with p Suc.prems(2) show ?case by (simp add: process_trade_def initial_lot_def)
qed

lemma step_event:
  assumes "n < length sts"
    and "prefix_run db symb sts rs n = Inr (lot, res)"
    and "prefix_run db symb sts rs (Suc n) = Inr (lot', res')"
    and "res' \<noteq> res"
  shows "\<exists>ev. res' = res @ [ev] \<and> attributed db symb sts ev"
proof -
  let ?P = "\<lambda>u. side u = ''BUY''"
  have step: "process_trade db symb sts n (sts ! n) (lot, res) = Inr (lot', res')"
    using assms(2,3) by (simp add: prefix_run_Suc[OF assms(1)])
  from process_trade_emits[OF step assms(4)] obtain ev where
    sell: "side (sts ! n) \<noteq> ''BUY''" and pos: "0 < position_qty lot"
    and res': "res' = res @ [ev]" and sy: "ev_symbol ev = symb"
    and date: "close_date ev = trade_date (sts ! n)" "exit_price ev = price (sts ! n)"
    and tg: "tags ev = (if filter ?P (take n sts) \<noteq> []
                      then lookup_tags db (last (filter ?P (take n sts))) else [])"
    and ht: "hold_time ev = (if filter ?P (take n sts) \<noteq> []
                      then instant (trade_date (sts ! n))
                           - instant (trade_date (last (filter ?P (take n sts))))
                      else 0)"
    by blast
  have le: "n \<le> length sts" using assms(1) by simp
  have "\<exists>j<n. side (sts ! j) = ''BUY''"
  proof (rule ccontr)
    assume "\<not> (\<exists>j<n. side (sts ! j) = ''BUY'')"
    then have "\<forall>j<n. side (sts ! j) \<noteq> ''BUY''" by simp
    from prefix_run_no_buy[OF le this assms(2)] pos show False by (simp add: initial_lot_def)
  qed
  from last_index_ex[of n "\<lambda>j. side (sts ! j) = ''BUY''", OF this] obtain j where
    j: "j < n" "side (sts ! j) = ''BUY''" "\<forall>k. j < k \<and> k < n \<longrightarrow> side (sts ! k) \<noteq> ''BUY''"
    by blast
  from filter_take_last[of j n sts ?P, OF j(1) le j(2)] j(3)
  have "filter ?P (take n sts) \<noteq> []" "last (filter ?P (take n sts)) = sts ! j" by simp_all
  with tg ht have "tags ev = lookup_tags db (sts ! j)"
    "hold_time ev = instant (trade_date (sts ! n)) - instant (trade_date (sts ! j))" by simp_all
  with assms(1) sell sy date j have "attributed db symb sts ev"
    unfolding attributed_def by blast
  with res' show ?thesis by blast
qed

lemma attributed_symbol: "attributed db symb sts ev \<Longrightarrow> ev_symbol ev = symb"
  unfolding attributed_def by blast

lemma prefix_run_events:
  assumes "n \<le> length sts" "prefix_run db symb sts rs n = Inr (lot, res)"
  shows "\<exists>evs. res = rs @ evs \<and> list_all (attributed db symb sts) evs"
  using assms
proof (induction n arbitrary: lot res)
  case 0
  then show ?case by (simp add: prefix_run_0)
next
  case (Suc n)
  from Suc.prems have n: "n < length sts" by simp
  from prefix_run_Suc_Inr[OF n Suc.prems(2)] obtain lot0 res0 where
    r: "prefix_run db symb sts rs n = Inr (lot0, res0)" by auto
  from Suc.IH[OF _ r] n obtain evs where evs: "res0 = rs @ evs"
    "list_all (attributed db symb sts) evs" by auto
  show ?case
  proof (cases "res = res0")
    case True
    with evs show ?thesis by blast
  next
    case False
    from step_event[OF n r Suc.prems(2) False] obtain ev where
      "res = res0 @ [ev]" "attributed db symb sts ev" by blast
    with evs show ?thesis by (intro exI[of _ "evs @ [ev]"]) simp
  qed
qed

lemma positions_loop_events:
  assumes "positions_loop db gs rs = Inr out"
  shows "\<exists>evs. out = rs @ evs
           \<and> list_all (\<lambda>ev. \<exists>g. (ev_symbol ev, g) \<in> set gs
                        \<and> attributed db (ev_symbol ev) (sort_by_date g) ev) evs"
  using assms
proof (induction gs arbitrary: rs)
  case Nil
  then show ?case by simp
next
  case (Cons sg gs)
  obtain symb g where sg: "sg = (symb, g)" by (cases sg)
  from Cons.prems obtain lot rs' where
    run: "symbol_run db symb g rs = Inr (lot, rs')"
    and rest: "positions_loop db gs rs' = Inr out"
    by (auto simp: sg split: sum.splits)
  have "prefix_run db symb (sort_by_date g) rs (length (sort_by_date g)) = Inr (lot, rs')"
    using run by (simp add: symbol_run_prefix sort_by_date_def)
  from prefix_run_events[OF _ this] obtain evs where evs: "rs' = rs @ evs"
    "list_all (attributed db symb (sort_by_date g)) evs" by auto
  from Cons.IH[OF rest] obtain evs' where evs': "out = rs' @ evs'"
    "list_all (\<lambda>ev. \<exists>g. (ev_symbol ev, g) \<in> set gs
                        \<and> attributed db (ev_symbol ev) (sort_by_date g) ev) evs'" by blast
  have "list_all (\<lambda>ev. \<exists>g'. (ev_symbol ev, g') \<in> set (sg # gs)
                        \<and> attributed db (ev_symbol ev) (sort_by_date g') ev) evs"
    unfolding list_all_iff
  proof
    fix ev assume "ev \<in> set evs"
    with evs(2) have a: "attributed db symb (sort_by_date g) ev" by (simp add: list_all_iff)
    then have "ev_symbol ev = symb" by (rule attributed_symbol)
    with a show "\<exists>g'. (ev_symbol ev, g') \<in> set (sg # gs)
                        \<and> attributed db (ev_symbol ev) (sort_by_date g') ev"
      by (intro exI[of _ g]) (simp add: sg)
  qed
  moreover have "list_all (\<lambda>ev. \<exists>g'. (ev_symbol ev, g') \<in> set (sg # gs)
                        \<and> attributed db (ev_symbol ev) (sort_by_date g') ev) evs'"
    using evs'(2) by (auto simp: list_all_iff)
  ultimately show ?case using evs(1) evs'(1) by (intro exI[of _ "evs @ evs'"]) simp
qed

lemma process_trade_no_prior_buy:
  assumes "side t \<noteq> ''BUY''" "0 < position_qty lot" "commission t = Some c"
    and "\<forall>u\<in>set (take i sts). side u \<noteq> ''BUY''"
  shows "\<exists>lot' ev. process_trade db symb sts i t (lot, res) = Inr (lot', res @ [ev])
           \<and> tags ev = [] \<and> hold_time ev = 0"
proof -
  from assms(4) have "filter (\<lambda>u. side u = ''BUY'') (take i sts) = []"
    by (simp add: filter_empty_conv)
  with assms(1-3) show ?thesis by (simp add: process_trade_def Let_def)
qed

text \<open>
  C8. Every closing event that \<^verbatim>\<open>_calculate_positions_pnl\<close> returns belongs to a fill
  \<open>n\<close>, not a BUY, of its instrument's fill sequence, which is the instrument's fills
  sorted by timestamp with ties in the order supplied; the event is closed at that
  fill's timestamp and price; a BUY \<open>j\<close> strictly before \<open>n\<close> with no BUY between them exists,
  the event's tags are the tags of that BUY (what the code looks up, and as a set the
  names the tag tables attach to that BUY, tag ids being a primary key), and its hold
  time is the timestamp of \<open>n\<close> minus the timestamp of \<open>j\<close>, which is not negative.
  Since an event is emitted only while a quantity is open, the case without a prior
  BUY, where line 389 and line 410 give no tags and a zero hold time
  (\<open>process_trade_no_prior_buy\<close>), never occurs in a run.
\<close>

theorem closing_event_tags_and_hold_time:
  assumes "calculate_positions_pnl db ts = Inr evs" and "ev \<in> set evs"
    and "distinct (map tag_uid (trade_tags db))"
  shows "\<exists>sts n j.
      sts = sort_by_date (instrument_fills ts (ev_symbol ev))
      \<and> sorted (map (\<lambda>x. instant (trade_date x)) sts)
      \<and> (\<forall>k. filter (\<lambda>x. instant (trade_date x) = k) sts
              = filter (\<lambda>x. instant (trade_date x) = k) (instrument_fills ts (ev_symbol ev)))
      \<and> n < length sts \<and> side (sts ! n) \<noteq> ''BUY'' \<and> close_date ev = trade_date (sts ! n)
      \<and> exit_price ev = price (sts ! n)
      \<and> j < n \<and> side (sts ! j) = ''BUY''
      \<and> (\<forall>k. j < k \<and> k < n \<longrightarrow> side (sts ! k) \<noteq> ''BUY'')
      \<and> tags ev = lookup_tags db (sts ! j)
      \<and> set (tags ev) = fill_tags_spec db (sts ! j)
      \<and> hold_time ev = instant (trade_date (sts ! n)) - instant (trade_date (sts ! j))
      \<and> 0 \<le> hold_time ev"
proof -
  let ?f = "\<lambda>x. instant (trade_date x)"
  from positions_loop_events[of db "group_by symbol ts" "[]" evs] assms(1,2)
  obtain g where g: "(ev_symbol ev, g) \<in> set (group_by symbol ts)"
    and at: "attributed db (ev_symbol ev) (sort_by_date g) ev"
    by (auto simp: calculate_positions_pnl_def list_all_iff)
  from group_by_member[OF g] have geq: "g = instrument_fills ts (ev_symbol ev)"
    by (simp add: instrument_fills_def)
  let ?sts = "sort_by_date (instrument_fills ts (ev_symbol ev))"
  from at geq obtain n j where
    n: "n < length ?sts" "side (?sts ! n) \<noteq> ''BUY''" "close_date ev = trade_date (?sts ! n)"
      "exit_price ev = price (?sts ! n)"
    and j: "j < n" "side (?sts ! j) = ''BUY''"
      "\<forall>k. j < k \<and> k < n \<longrightarrow> side (?sts ! k) \<noteq> ''BUY''"
    and tg: "tags ev = lookup_tags db (?sts ! j)"
    and ht: "hold_time ev = ?f (?sts ! n) - ?f (?sts ! j)"
    unfolding attributed_def by blast
  have srt: "sorted (map ?f ?sts)" by (simp add: sort_by_date_def)
  have stable: "\<forall>k. filter (\<lambda>x. ?f x = k) ?sts
                   = filter (\<lambda>x. ?f x = k) (instrument_fills ts (ev_symbol ev))"
    by (simp add: sort_by_date_def sort_key_stable)
  from srt j(1) n(1) have "map ?f ?sts ! j \<le> map ?f ?sts ! n"
    by (intro sorted_nth_mono) simp_all
  with j(1) n(1) ht have nonneg: "0 \<le> hold_time ev" by simp
  from tg lookup_tags_spec[OF assms(3)] have spec: "set (tags ev) = fill_tags_spec db (?sts ! j)"
    by simp
  from srt stable n j tg spec ht nonneg show ?thesis by blast
qed

theorem closing_event_tags_and_hold_time_witness:
  "calculate_positions_pnl tagged_db scenario_A = Inr [event_A_tagged]
   \<and> distinct (map tag_uid (trade_tags tagged_db))
   \<and> tags event_A_tagged = [''momentum'', ''swing''] \<and> hold_time event_A_tagged = 1
   \<and> (\<exists>sts n j.
      sts = sort_by_date (instrument_fills scenario_A (ev_symbol event_A_tagged))
      \<and> sorted (map (\<lambda>x. instant (trade_date x)) sts)
      \<and> (\<forall>k. filter (\<lambda>x. instant (trade_date x) = k) sts
              = filter (\<lambda>x. instant (trade_date x) = k)
                  (instrument_fills scenario_A (ev_symbol event_A_tagged)))
      \<and> n < length sts \<and> side (sts ! n) \<noteq> ''BUY''
      \<and> close_date event_A_tagged = trade_date (sts ! n)
      \<and> exit_price event_A_tagged = price (sts ! n)
      \<and> j < n \<and> side (sts ! j) = ''BUY''
      \<and> (\<forall>k. j < k \<and> k < n \<longrightarrow> side (sts ! k) \<noteq> ''BUY'')
      \<and> tags event_A_tagged = lookup_tags tagged_db (sts ! j)
      \<and> set (tags event_A_tagged) = fill_tags_spec tagged_db (sts ! j)
      \<and> hold_time event_A_tagged = instant (trade_date (sts ! n)) - instant (trade_date (sts ! j))
      \<and> 0 \<le> hold_time event_A_tagged)"
proof -
  have out: "calculate_positions_pnl tagged_db scenario_A = Inr [event_A_tagged]"
    by (simp add: calculate_positions_pnl_def group_by_def scenario_A_def fill_def symbol_run_def
        sort_by_date_def process_trade_def initial_lot_def event_A_tagged_def event_A_def Let_def
        lookup_tags_def tagged_db_def)
  have mem: "event_A_tagged \<in> set [event_A_tagged]" by simp
  have pk: "distinct (map tag_uid (trade_tags tagged_db))" by (simp add: tagged_db_def)
  have tg: "tags event_A_tagged = [''momentum'', ''swing'']"
    and ht: "hold_time event_A_tagged = 1"
    by (simp_all add: event_A_tagged_def event_A_def)
  note ex = closing_event_tags_and_hold_time[OF out mem pk]
  show ?thesis using out pk tg ht ex by (intro conjI) assumption+
qed

subsection \<open>The dashboard total against the reconstruction\<close>

lemma sim_step:
  assumes "sim s acc"
    and "dashboard_trade t s = Inr s'" and "process_trade db symb sts i t acc = Inr acc'"
    and "side t \<noteq> ''BUY'' \<and> 0 < d_position s \<longrightarrow> quantity t \<le> d_position s"
  shows "sim s' acc'
         \<and> d_position s' = (if side t = ''BUY'' then d_position s + quantity t
                             else if 0 < d_position s then d_position s - quantity t
                             else d_position s)"
  using assms
  by (cases acc)
     (auto simp: sim_def dashboard_trade_def process_trade_def decimal_div_def Let_def gross_pnl_def
        min_def split: sum.splits if_splits option.splits)

lemma sim_step_oversell:
  assumes "sim s acc"
    and "dashboard_trade t s = Inr s'" and "process_trade db symb sts i t acc = Inr acc'"
    and "side t \<noteq> ''BUY''" "0 < d_position s" "d_position s < quantity t"
  shows "oversold s' acc'"
  using assms
  by (cases acc)
     (auto simp: sim_def oversold_def dashboard_trade_def process_trade_def Let_def gross_pnl_def
        min_def split: sum.splits if_splits option.splits)

lemma oversold_step:
  assumes "oversold s acc" "side t \<noteq> ''BUY''"
  shows "dashboard_trade t s = Inr s \<and> process_trade db symb sts i t acc = Inr acc"
  using assms by (cases acc) (auto simp: oversold_def dashboard_trade_def process_trade_def)

lemma oversold_loop:
  assumes "oversold s acc" "list_all (\<lambda>u. side u \<noteq> ''BUY'') ts"
  shows "dashboard_symbol_loop ts s = Inr s
         \<and> symbol_loop db symb sts (enumerate k ts) acc = Inr acc"
  using assms
proof (induction ts arbitrary: k)
  case Nil
  then show ?case by simp
next
  case (Cons t ts)
  from Cons.prems have "side t \<noteq> ''BUY''" by simp
  from oversold_step[OF Cons.prems(1) this, of db symb sts k] Cons.IH[of "Suc k"] Cons.prems
  show ?case by simp
qed

lemma sim_symbol_loop:
  assumes "sim s acc" "no_buy_after_oversell (d_position s) ts"
    and "dashboard_symbol_loop ts s = Inr s'"
    and "symbol_loop db symb sts (enumerate k ts) acc = Inr acc'"
  shows "d_total_pnl s' = sum_list (map gross_pnl (snd acc'))"
  using assms
proof (induction ts arbitrary: s acc k)
  case Nil
  then show ?case by (simp add: sim_def)
next
  case (Cons t ts)
  from Cons.prems(3) obtain s1 where d1: "dashboard_trade t s = Inr s1"
    and dl: "dashboard_symbol_loop ts s1 = Inr s'"
    by (auto split: sum.splits)
  from Cons.prems(4) obtain acc1 where p1: "process_trade db symb sts k t acc = Inr acc1"
    and pl: "symbol_loop db symb sts (enumerate (Suc k) ts) acc1 = Inr acc'"
    by (auto split: sum.splits)
  show ?case
  proof (cases "side t \<noteq> ''BUY'' \<and> 0 < d_position s \<and> d_position s < quantity t")
    case True
    with sim_step_oversell[OF Cons.prems(1) d1 p1] have ov: "oversold s1 acc1" by simp
    from True Cons.prems(2) have "list_all (\<lambda>u. side u \<noteq> ''BUY'') ts" by simp
    from oversold_loop[OF ov this, of db symb sts "Suc k"] dl pl
    have "s' = s1" "acc' = acc1" by simp_all
    with ov show ?thesis by (simp add: oversold_def)
  next
    case False
    then have le: "side t \<noteq> ''BUY'' \<and> 0 < d_position s \<longrightarrow> quantity t \<le> d_position s"
      by auto
    from sim_step[OF Cons.prems(1) d1 p1 le] have s1: "sim s1 acc1"
      and pos: "d_position s1 = (if side t = ''BUY'' then d_position s + quantity t
                             else if 0 < d_position s then d_position s - quantity t
                             else d_position s)" by simp_all
    from Cons.prems(2) False pos have "no_buy_after_oversell (d_position s1) ts"
      by (auto split: if_splits)
    from Cons.IH[OF s1 this dl pl] show ?thesis .
  qed
qed

lemma sim_positions_loop:
  assumes "list_all (\<lambda>g. no_buy_after_oversell 0 (sort_by_date (snd g))) gs"
    and "fst acc = sum_list (map gross_pnl res)"
    and "dashboard_loop gs acc = Inr acc'" and "positions_loop db gs res = Inr res'"
  shows "fst acc' = sum_list (map gross_pnl res')"
  using assms
proof (induction gs arbitrary: acc res)
  case Nil
  then show ?case by simp
next
  case (Cons g gs)
  obtain symb ts where g: "g = (symb, ts)" by (cases g)
  let ?s = "\<lparr>d_position = 0, d_avg_price = 0, d_total_pnl = fst acc, d_winning_trades = snd acc\<rparr>"
  have s0: "sim ?s (initial_lot, res)" using Cons.prems(2) by (simp add: sim_def initial_lot_def)
  have ov: "no_buy_after_oversell (d_position ?s) (sort_by_date ts)"
    using Cons.prems(1) g by simp
  from Cons.prems(3) obtain s' where dl: "dashboard_symbol_loop (sort_by_date ts) ?s = Inr s'"
    and dr: "dashboard_loop gs (d_total_pnl s', d_winning_trades s') = Inr acc'"
    by (auto simp: g split: sum.splits)
  from Cons.prems(4) obtain lot' res1 where
    run: "symbol_loop db symb (sort_by_date ts) (enumerate 0 (sort_by_date ts)) (initial_lot, res)
              = Inr (lot', res1)"
    and pr: "positions_loop db gs res1 = Inr res'"
    by (auto simp: g symbol_run_def Let_def split: sum.splits)
  from sim_symbol_loop[OF s0 ov dl run]
  have tot: "fst (d_total_pnl s', d_winning_trades s') = sum_list (map gross_pnl res1)" by simp
  from Cons.prems(1) have rest: "list_all (\<lambda>g. no_buy_after_oversell 0 (sort_by_date (snd g))) gs"
    by simp
  from Cons.IH[OF rest tot dr pr] show ?case .
qed

lemma scenario_A_dashboard:
  "map_sum id total_pnl (dashboard_stats_of scenario_A) = Inr (475 / 2)"
  by (simp add: dashboard_stats_of_def group_by_def scenario_A_def fill_def sort_by_date_def
      dashboard_trade_def)

text \<open>
  C2, as stated, fails on Scenario A: the dashboard total is 237.50, the sum of the
  realized P&L of the closing events is 236.50; the dashboard does not deduct the
  SELL's commission.
\<close>

theorem dashboard_total_counterexample:
  "map_sum id total_pnl (dashboard_stats_of scenario_A) = Inr (237.50)
   \<and> map_sum id (\<lambda>evs. sum_list (map pnl evs))
        (calculate_positions_pnl (no_tags_db scenario_A) scenario_A) = Inr (236.50)
   \<and> map_sum id total_pnl (dashboard_stats_of scenario_A)
       \<noteq> map_sum id (\<lambda>evs. sum_list (map pnl evs))
            (calculate_positions_pnl (no_tags_db scenario_A) scenario_A)"
  by (simp add: scenario_A_dashboard scenario_A_positions event_A_def)

text \<open>
  C2, amended. For every fill list in which no BUY of an instrument comes after a
  SELL that exceeded the open quantity: whenever the dashboard computation returns
  its statistics and the reconstruction returns its closing events from the same
  fills, the dashboard's \<^verbatim>\<open>total_pnl\<close> is the sum over those events of
  \<open>(exit_price - entry_price) * closed_quantity\<close>, the realized P&L without the
  commission.
\<close>

theorem dashboard_total_is_gross_pnl:
  assumes "no_buy_after_oversell_all ts"
    and "dashboard_stats_of ts = Inr ds"
    and "calculate_positions_pnl db ts = Inr evs"
  shows "total_pnl ds = sum_list (map gross_pnl evs)"
proof (cases "ts = []")
  case True
  with assms(2,3) show ?thesis
    by (auto simp: dashboard_stats_of_def calculate_positions_pnl_def group_by_def)
next
  case False
  from assms(1) have gs:
    "list_all (\<lambda>g. no_buy_after_oversell 0 (sort_by_date (snd g))) (group_by symbol ts)"
    by (simp add: no_buy_after_oversell_all_def)
  from assms(2) False obtain acc' where
    dl: "dashboard_loop (group_by symbol ts) (0, 0) = Inr acc'" and tp: "total_pnl ds = fst acc'"
    by (auto simp: dashboard_stats_of_def split: sum.splits)
  have "fst (0::decimal, 0::nat) = sum_list (map gross_pnl [])" by simp
  from sim_positions_loop[OF gs this dl] assms(3) tp show ?thesis
    by (simp add: calculate_positions_pnl_def)
qed

theorem dashboard_total_is_gross_pnl_witness:
  "no_buy_after_oversell_all scenario_D
   \<and> (\<exists>ds evs. dashboard_stats_of scenario_D = Inr ds
         \<and> calculate_positions_pnl (no_tags_db scenario_D) scenario_D = Inr evs
         \<and> total_pnl ds = 100 \<and> sum_list (map gross_pnl evs) = 100)"
proof -
  have ok: "no_buy_after_oversell_all scenario_D"
    by (simp add: no_buy_after_oversell_all_def group_by_def scenario_D_def fill_def
        sort_by_date_def)
  have "\<exists>ds. dashboard_stats_of scenario_D = Inr ds \<and> total_pnl ds = 100"
    by (simp add: dashboard_stats_of_def group_by_def scenario_D_def fill_def sort_by_date_def
        dashboard_trade_def)
  then obtain ds where d: "dashboard_stats_of scenario_D = Inr ds" and t: "total_pnl ds = 100"
    by blast
  have "\<exists>evs. calculate_positions_pnl (no_tags_db scenario_D) scenario_D = Inr evs"
    by (simp add: calculate_positions_pnl_def group_by_def scenario_D_def fill_def symbol_run_def
        sort_by_date_def process_trade_def initial_lot_def Let_def)
  then obtain evs where e: "calculate_positions_pnl (no_tags_db scenario_D) scenario_D = Inr evs"
    by blast
  from dashboard_total_is_gross_pnl[OF ok d e] t have "sum_list (map gross_pnl evs) = 100"
    by simp
  with ok d e t show ?thesis by blast
qed

text \<open>
  A BUY after an oversell parts the two computations: the dashboard subtracts the
  whole SELL quantity (line 144) where the reconstruction subtracts the matched
  quantity (line 413), so the dashboard's open quantity goes negative and the later
  round trip is lost.
\<close>

lemma dashboard_oversell_diverges:
  "map_sum id total_pnl (dashboard_stats_of oversell_fills) = Inr 100
   \<and> map_sum id (\<lambda>evs. sum_list (map gross_pnl evs))
        (calculate_positions_pnl (no_tags_db oversell_fills) oversell_fills) = Inr 150"
  by (simp add: dashboard_stats_of_def calculate_positions_pnl_def group_by_def
      oversell_fills_def fill_def sort_by_date_def dashboard_trade_def symbol_run_def
      process_trade_def initial_lot_def decimal_div_def gross_pnl_def Let_def
      lookup_tags_def no_tags_db_def)

text \<open>
  A \<^verbatim>\<open>NULL\<close> commission makes one computation raise where the other returns: on a
  BUY the dashboard raises at line 116 and the reconstruction never reads it; on a
  closing SELL both raise, the reconstruction at line 385.
\<close>

lemma null_commission_diverges:
  "dashboard_stats_of null_commission_buy = Inl TypeError
   \<and> calculate_positions_pnl (no_tags_db null_commission_buy) null_commission_buy = Inr []
   \<and> dashboard_stats_of null_commission_sell = Inl TypeError
   \<and> calculate_positions_pnl (no_tags_db null_commission_sell) null_commission_sell
       = Inl TypeError"
  by (simp add: dashboard_stats_of_def calculate_positions_pnl_def group_by_def
      null_commission_buy_def null_commission_sell_def fill_def sort_by_date_def symbol_run_def
      process_trade_def initial_lot_def Let_def)

subsection \<open>Sums over groups\<close>

lemma sum_dict_append:
  fixes f :: "'v \<Rightarrow> 'a::comm_monoid_add"
  shows "sum_list (map (\<lambda>g. sum_list (map f (snd g))) (dict_append k v d))
         = sum_list (map (\<lambda>g. sum_list (map f (snd g))) d) + f v"
  by (induction k v d rule: dict_append.induct) (simp_all add: ac_simps)

lemma sum_foldl_dict:
  fixes f :: "'v \<Rightarrow> 'a::comm_monoid_add"
  shows "sum_list (map (\<lambda>g. sum_list (map f (snd g))) (foldl (\<lambda>d x. dict_append (key x) x d) d xs))
         = sum_list (map (\<lambda>g. sum_list (map f (snd g))) d) + sum_list (map f xs)"
  by (induction xs arbitrary: d) (simp_all add: sum_dict_append ac_simps)

lemma sum_group_by:
  fixes f :: "'v \<Rightarrow> 'a::comm_monoid_add"
  shows "sum_list (map (\<lambda>g. sum_list (map f (snd g))) (group_by key xs)) = sum_list (map f xs)"
  by (simp add: group_by_def sum_foldl_dict)

lemma sum_insort_key:
  fixes f :: "'v \<Rightarrow> 'a::comm_monoid_add"
  shows "sum_list (map f (insort_key k x xs)) = f x + sum_list (map f xs)"
  by (induction xs) (simp_all add: ac_simps)

lemma sum_sort_key:
  fixes f :: "'v \<Rightarrow> 'a::comm_monoid_add"
  shows "sum_list (map f (sort_key k xs)) = sum_list (map f xs)"
  by (induction xs) (simp_all add: sum_insort_key)

text \<open>
  C5. For every list of closing events, the groups built for the by-period view
  (lines 473 to 476, in the sorted order of line 479) and for the by-instrument view
  (lines 498 to 500) partition the events: the per-group sums of \<^verbatim>\<open>pnl\<close>, which are
  the \<^verbatim>\<open>total_pnl\<close> values the rows would carry, add up to the sum of \<^verbatim>\<open>pnl\<close> over all
  events. But on every non-empty list neither view is returned: the first call of
  \<^verbatim>\<open>_calculate_breakdown\<close> in each loop raises \<^verbatim>\<open>TypeError\<close>.
\<close>

theorem aggregation_identity_then_raises:
  "sum_list (map (\<lambda>g. sum_list (map pnl (snd g))) (sort_key fst (monthly_groups ps)))
     = sum_list (map pnl ps)
   \<and> sum_list (map (\<lambda>g. sum_list (map pnl (snd g))) (symbol_groups ps)) = sum_list (map pnl ps)
   \<and> analyze_by_timeframe ps = (if ps = [] then Inr [] else Inl TypeError)
   \<and> analyze_by_symbol ps = (if ps = [] then Inr [] else Inl TypeError)"
  by (simp add: sum_sort_key monthly_groups_def symbol_groups_def sum_group_by
      analyze_by_timeframe_eq analyze_by_symbol_eq)

subsection \<open>Strategy buckets\<close>

lemma sum_foldl_tags:
  fixes f :: "closing_event \<Rightarrow> 'a::comm_monoid_add"
  shows "sum_list (map (\<lambda>g. sum_list (map f (snd g))) (foldl (\<lambda>d' tag. dict_append tag pos d') d tgs))
         = sum_list (map (\<lambda>g. sum_list (map f (snd g))) d) + sum_list (map (\<lambda>t. f pos) tgs)"
  by (induction tgs arbitrary: d) (simp_all add: sum_dict_append ac_simps)

lemma sum_strategy_add:
  fixes f :: "closing_event \<Rightarrow> 'a::comm_monoid_add"
  shows "sum_list (map (\<lambda>g. sum_list (map f (snd g))) (strategy_add d pos))
         = sum_list (map (\<lambda>g. sum_list (map f (snd g))) d)
           + (if tags pos = [] then f pos else sum_list (map (\<lambda>t. f pos) (tags pos)))"
  by (simp add: strategy_add_def sum_foldl_tags sum_dict_append)

lemma sum_strategy_groups_gen:
  fixes f :: "closing_event \<Rightarrow> 'a::comm_monoid_add"
  shows "sum_list (map (\<lambda>g. sum_list (map f (snd g))) (foldl strategy_add d ps))
         = sum_list (map (\<lambda>g. sum_list (map f (snd g))) d)
           + sum_list (map (\<lambda>p. if tags p = [] then f p else sum_list (map (\<lambda>t. f p) (tags p))) ps)"
  by (induction ps arbitrary: d) (simp_all add: sum_strategy_add ac_simps)

lemma count_strategy_groups:
  "sum_list (map (\<lambda>g. length (snd g)) (strategy_groups ps))
     = sum_list (map (\<lambda>p. if tags p = [] then 1 else length (tags p)) ps)"
proof -
  have "sum_list (map (\<lambda>g. sum_list (map (\<lambda>p. 1::nat) (snd g))) (strategy_groups ps))
        = sum_list (map (\<lambda>p. if tags p = [] then 1 else sum_list (map (\<lambda>t. 1::nat) (tags p))) ps)"
    using sum_strategy_groups_gen[of "\<lambda>p. 1::nat" "[]" ps] by (simp add: strategy_groups_def)
  then show ?thesis by (simp add: sum_list_triv cong: if_cong)
qed

lemma pnl_strategy_groups:
  "sum_list (map (\<lambda>g. sum_list (map pnl (snd g))) (strategy_groups ps))
     = sum_list (map (\<lambda>p. if tags p = [] then pnl p else of_nat (length (tags p)) * pnl p) ps)"
  using sum_strategy_groups_gen[of pnl "[]" ps]
  by (simp add: strategy_groups_def sum_list_triv cong: if_cong)

lemma holding_dict_append:
  "buckets_holding (dict_append k v d) p = buckets_holding d p \<union> (if p = v then {k} else {})"
  unfolding buckets_holding_def map_of_dict_append
  by (auto split: option.splits if_splits)

lemma distinct_foldl_tags:
  "distinct (map fst d) \<Longrightarrow> distinct (map fst (foldl (\<lambda>d' tag. dict_append tag pos d') d tgs))"
  by (induction tgs arbitrary: d) (simp_all add: distinct_dict_append)

lemma holding_foldl_tags:
  "buckets_holding (foldl (\<lambda>d' tag. dict_append tag pos d') d tgs) p
     = buckets_holding d p \<union> (if p = pos then set tgs else {})"
  by (induction tgs arbitrary: d) (auto simp: holding_dict_append)

lemma distinct_strategy_add: "distinct (map fst d) \<Longrightarrow> distinct (map fst (strategy_add d pos))"
  by (simp add: strategy_add_def distinct_foldl_tags distinct_dict_append)

lemma holding_strategy_add:
  "buckets_holding (strategy_add d pos) p
     = buckets_holding d p \<union> (if p = pos then bucket_names pos else {})"
  by (simp add: strategy_add_def holding_foldl_tags holding_dict_append bucket_names_def)

lemma distinct_foldl_strategy:
  "distinct (map fst d) \<Longrightarrow> distinct (map fst (foldl strategy_add d ps))"
  by (induction ps arbitrary: d) (simp_all add: distinct_strategy_add)

lemma holding_foldl_strategy:
  "buckets_holding (foldl strategy_add d ps) p
     = buckets_holding d p \<union> (if p \<in> set ps then bucket_names p else {})"
  by (induction ps arbitrary: d) (auto simp: holding_strategy_add)

lemma holding_strategy_groups:
  "buckets_holding (strategy_groups ps) p = (if p \<in> set ps then bucket_names p else {})"
  using holding_foldl_strategy[of "[]" ps p] by (simp add: strategy_groups_def buckets_holding_def)

lemma distinct_strategy_groups: "distinct (map fst (strategy_groups ps))"
  using distinct_foldl_strategy[of "[]" ps] by (simp add: strategy_groups_def)


lemma two_tag_groups:
  "strategy_groups [event_A_tagged]
     = [(''momentum'', [event_A_tagged]), (''swing'', [event_A_tagged])]"
  by (simp add: strategy_groups_def strategy_add_def event_A_tagged_def)

text \<open>
  C9. The buckets built by lines 531 to 536: an event of the list is held by exactly
  the buckets named by its tags, or by the one bucket \<open>No Strategy\<close> if it has no tag;
  bucket names are distinct; the bucket sizes add up to the number of tags of the
  tagged events plus the number of untagged events, and the bucket totals count an
  event's full P&L once per tag (an event with two tags sits in two buckets). But on
  every non-empty list the view is not returned: the first call of
  \<^verbatim>\<open>_calculate_breakdown\<close> raises \<^verbatim>\<open>TypeError\<close>.
\<close>

theorem strategy_buckets_then_raises:
  "buckets_holding (strategy_groups ps) p = (if p \<in> set ps then bucket_names p else {})
   \<and> distinct (map fst (strategy_groups ps))
   \<and> sum_list (map (\<lambda>g. length (snd g)) (strategy_groups ps))
       = sum_list (map (\<lambda>p. if tags p = [] then 1 else length (tags p)) ps)
   \<and> sum_list (map (\<lambda>g. sum_list (map pnl (snd g))) (strategy_groups ps))
       = sum_list (map (\<lambda>p. if tags p = [] then pnl p else of_nat (length (tags p)) * pnl p) ps)
   \<and> strategy_groups [event_A_tagged]
       = [(''momentum'', [event_A_tagged]), (''swing'', [event_A_tagged])]
   \<and> analyze_by_strategy [event_A_tagged] = Inl TypeError
   \<and> analyze_by_strategy ps = (if ps = [] then Inr [] else Inl TypeError)"
  using holding_strategy_groups[of ps p] distinct_strategy_groups[of ps]
    count_strategy_groups[of ps] pnl_strategy_groups[of ps] two_tag_groups
  by (simp add: analyze_by_strategy_eq)

subsection \<open>No fill is rejected\<close>

lemma as_sell_simps [simp]:
  "symbol (as_sell t) = symbol t" "quantity (as_sell t) = quantity t"
  "price (as_sell t) = price t" "commission (as_sell t) = commission t"
  "trade_date (as_sell t) = trade_date t" "trade_uid (as_sell t) = trade_uid t"
  "(side (as_sell t) = ''BUY'') = (side t = ''BUY'')"
  by (simp_all add: as_sell_def)

lemma dict_append_map:
  assumes "k' = k"
  shows "dict_append k' (f v) (map (\<lambda>g. (fst g, map f (snd g))) d)
         = map (\<lambda>g. (fst g, map f (snd g))) (dict_append k v d)"
  using assms by (induction k v d rule: dict_append.induct) auto

lemma foldl_dict_map:
  assumes "\<And>x. key (f x) = key x"
  shows "foldl (\<lambda>d x. dict_append (key x) x d) (map (\<lambda>g. (fst g, map f (snd g))) d) (map f xs)
         = map (\<lambda>g. (fst g, map f (snd g))) (foldl (\<lambda>d x. dict_append (key x) x d) d xs)"
  by (induction xs arbitrary: d) (simp_all add: assms dict_append_map)

lemma group_by_map:
  assumes "\<And>x. key (f x) = key x"
  shows "group_by key (map f xs) = map (\<lambda>g. (fst g, map f (snd g))) (group_by key xs)"
  using foldl_dict_map[of key f "[]" xs, OF assms] by (simp add: group_by_def)

lemma insort_key_map:
  assumes "\<And>x. k (f x) = k x"
  shows "insort_key k (f x) (map f xs) = map f (insort_key k x xs)"
  by (induction xs) (simp_all add: assms)

lemma sort_key_map_same:
  assumes "\<And>x. k (f x) = k x"
  shows "sort_key k (map f xs) = map f (sort_key k xs)"
  by (induction xs) (simp_all add: insort_key_map[of k f, OF assms])

lemma sort_by_date_as_sell: "sort_by_date (map as_sell ts) = map as_sell (sort_by_date ts)"
  unfolding sort_by_date_def by (rule sort_key_map_same) simp

lemma filter_buy_as_sell:
  "filter (\<lambda>u. side u = ''BUY'') (map as_sell xs) = filter (\<lambda>u. side u = ''BUY'') xs"
  by (induction xs) (auto simp: as_sell_def)

lemma process_trade_as_sell:
  "process_trade db symb (map as_sell sts) i (as_sell t) acc = process_trade db symb sts i t acc"
proof -
  have o: "filter (\<lambda>u. side u = ''BUY'') (take i (map as_sell sts))
             = filter (\<lambda>u. side u = ''BUY'') (take i sts)"
    by (simp add: take_map filter_buy_as_sell)
  show ?thesis
    by (cases acc) (auto simp: process_trade_def Let_def o split: option.splits sum.splits)
qed

lemma symbol_loop_as_sell:
  "symbol_loop db symb (map as_sell sts) (enumerate k (map as_sell rest)) acc
     = symbol_loop db symb sts (enumerate k rest) acc"
  by (induction rest arbitrary: k acc) (simp_all add: process_trade_as_sell split: sum.splits)

lemma symbol_run_as_sell: "symbol_run db symb (map as_sell ts) rs = symbol_run db symb ts rs"
  by (simp add: symbol_run_def Let_def sort_by_date_as_sell symbol_loop_as_sell)

lemma positions_loop_as_sell:
  "positions_loop db (map (\<lambda>g. (fst g, map as_sell (snd g))) gs) rs = positions_loop db gs rs"
  by (induction gs arbitrary: rs) (auto simp: symbol_run_as_sell split: sum.splits)

lemma calculate_positions_pnl_as_sell:
  "calculate_positions_pnl db (map as_sell ts) = calculate_positions_pnl db ts"
  by (simp add: calculate_positions_pnl_def group_by_map positions_loop_as_sell)

lemma process_trade_unknown_side:
  "side t \<noteq> ''BUY'' \<Longrightarrow>
   process_trade db symb sts i t acc = process_trade db symb sts i (t\<lparr>side := ''SELL''\<rparr>) acc"
  by (cases acc) (auto simp: process_trade_def Let_def split: option.splits)

lemma process_trade_buy_quantity:
  assumes "side t = ''BUY''" "process_trade db symb sts i t (lot, res) = Inr (lot', res')"
  shows "position_qty lot' = position_qty lot + quantity t \<and> res' = res"
  using assms by (auto simp: process_trade_def split: if_splits sum.splits)

lemma unknown_side_result:
  "map_sum id (map event_summary)
     (calculate_positions_pnl (no_tags_db unknown_side_fills) unknown_side_fills)
     = Inr [(40, 10, 80)]"
  by (simp add: calculate_positions_pnl_def group_by_def unknown_side_fills_def fill_def
      symbol_run_def sort_by_date_def process_trade_def initial_lot_def Let_def
      lookup_tags_def no_tags_db_def event_summary_def)

lemma negative_qty_result:
  "map_sum id (map event_summary)
     (calculate_positions_pnl (no_tags_db negative_qty_fills) negative_qty_fills)
     = Inr [(5, 30, 50)]"
  by (simp add: calculate_positions_pnl_def group_by_def negative_qty_fills_def fill_def
      symbol_run_def sort_by_date_def process_trade_def initial_lot_def Let_def decimal_div_def
      lookup_tags_def no_tags_db_def event_summary_def)

text \<open>
  C7, as stated, fails: a fill whose side is \<open>HOLD\<close> closes 40 units like a SELL, and a
  BUY of quantity \<open>-5\<close> goes into the average (entry price 30 from purchases at 10 and
  20); both reconstructions return closing events and no error.
\<close>

theorem validation_counterexample:
  "side (unknown_side_fills ! 1) = ''HOLD''
   \<and> map_sum id (map event_summary)
       (calculate_positions_pnl (no_tags_db unknown_side_fills) unknown_side_fills)
       = Inr [(40, 10, 80)]
   \<and> quantity (negative_qty_fills ! 0) = - 5
   \<and> map_sum id (map event_summary)
       (calculate_positions_pnl (no_tags_db negative_qty_fills) negative_qty_fills)
       = Inr [(5, 30, 50)]"
  by (simp add: unknown_side_result negative_qty_result)
     (simp add: unknown_side_fills_def negative_qty_fills_def fill_def)

text \<open>
  C7, amended. A fill with an unknown side or a negative quantity is not rejected:
  the reconstruction has no validation. A fill whose side is not \<open>BUY\<close> is processed
  exactly as a SELL, at each step and over a whole fill list; and a BUY that the step
  accepts changes the open quantity by its quantity, whatever the sign, and emits
  nothing.
\<close>

theorem fills_are_not_validated:
  "calculate_positions_pnl db (map as_sell ts) = calculate_positions_pnl db ts
   \<and> (side t \<noteq> ''BUY'' \<longrightarrow>
        process_trade db symb sts i t acc
          = process_trade db symb sts i (t\<lparr>side := ''SELL''\<rparr>) acc)
   \<and> (side t = ''BUY'' \<longrightarrow>
        (\<forall>lot' res'. process_trade db symb sts i t (lot, res) = Inr (lot', res') \<longrightarrow>
           position_qty lot' = position_qty lot + quantity t \<and> res' = res))"
  using calculate_positions_pnl_as_sell[of db ts] process_trade_unknown_side[of t db symb sts i acc]
    process_trade_buy_quantity[of t db symb sts i lot res]
  by blast

theorem fills_are_not_validated_witness:
  "side (unknown_side_fills ! 1) \<noteq> ''BUY''
   \<and> as_sell (unknown_side_fills ! 1) \<noteq> unknown_side_fills ! 1
   \<and> calculate_positions_pnl (no_tags_db unknown_side_fills) (map as_sell unknown_side_fills)
       = calculate_positions_pnl (no_tags_db unknown_side_fills) unknown_side_fills
   \<and> process_trade (no_tags_db unknown_side_fills) ''MSFT'' unknown_side_fills 1
        (unknown_side_fills ! 1) (\<lparr>position_qty = 100, avg_price = 10\<rparr>, [])
      = process_trade (no_tags_db unknown_side_fills) ''MSFT'' unknown_side_fills 1
        ((unknown_side_fills ! 1)\<lparr>side := ''SELL''\<rparr>) (\<lparr>position_qty = 100, avg_price = 10\<rparr>, [])
   \<and> side (negative_qty_fills ! 0) = ''BUY''
   \<and> (\<exists>lot' res'. process_trade (no_tags_db negative_qty_fills) ''MSFT'' negative_qty_fills 0
                      (negative_qty_fills ! 0) (initial_lot, []) = Inr (lot', res')
         \<and> position_qty lot' = - 5 \<and> res' = [])"
proof -
  have a: "side (unknown_side_fills ! 1) \<noteq> ''BUY''"
    and a': "as_sell (unknown_side_fills ! 1) \<noteq> unknown_side_fills ! 1"
    by (simp_all add: unknown_side_fills_def fill_def as_sell_def)
  have b: "side (negative_qty_fills ! 0) = ''BUY''"
    and q: "quantity (negative_qty_fills ! 0) = - 5"
    by (simp_all add: negative_qty_fills_def fill_def)
  have "\<exists>lot' res'. process_trade (no_tags_db negative_qty_fills) ''MSFT'' negative_qty_fills 0
                      (negative_qty_fills ! 0) (initial_lot, []) = Inr (lot', res')"
    by (simp add: process_trade_def initial_lot_def negative_qty_fills_def fill_def)
  then obtain lot' res' where
    r: "process_trade (no_tags_db negative_qty_fills) ''MSFT'' negative_qty_fills 0
          (negative_qty_fills ! 0) (initial_lot, []) = Inr (lot', res')" by blast
  from fills_are_not_validated[of "no_tags_db negative_qty_fills" negative_qty_fills
      "negative_qty_fills ! 0" "''MSFT''" negative_qty_fills 0 "(initial_lot, [])"
      initial_lot "[]"] b r q
  have c: "position_qty lot' = - 5 \<and> res' = []" by (simp add: initial_lot_def)
  from fills_are_not_validated[of "no_tags_db unknown_side_fills" unknown_side_fills
      "unknown_side_fills ! 1" "''MSFT''" unknown_side_fills 1
      "(\<lparr>position_qty = 100, avg_price = 10\<rparr>, [])" initial_lot "[]"] a
  have d: "calculate_positions_pnl (no_tags_db unknown_side_fills) (map as_sell unknown_side_fills)
       = calculate_positions_pnl (no_tags_db unknown_side_fills) unknown_side_fills"
    and e: "process_trade (no_tags_db unknown_side_fills) ''MSFT'' unknown_side_fills 1
        (unknown_side_fills ! 1) (\<lparr>position_qty = 100, avg_price = 10\<rparr>, [])
      = process_trade (no_tags_db unknown_side_fills) ''MSFT'' unknown_side_fills 1
        ((unknown_side_fills ! 1)\<lparr>side := ''SELL''\<rparr>) (\<lparr>position_qty = 100, avg_price = 10\<rparr>, [])"
    by simp_all
  from a a' b c d e r show ?thesis by blast
qed

subsection \<open>Where the clock enters\<close>

text \<open>
  The reconstruction, the breakdown and the three groupings take no clock. The clock
  is read by \<^verbatim>\<open>_get_cutoff_date\<close> alone (\<^verbatim>\<open>datetime.now()\<close>, line 341), which
  \<^verbatim>\<open>get_win_loss_analysis\<close> calls for every time period but \<open>all\<close>: the fills handed to
  the reconstruction do not depend on the clock for \<open>all\<close>, and do for \<open>1m\<close>.
\<close>

lemma fetch_trades_all_ignores_clock:
  "fetch_trades clk db uid ''all'' = fetch_trades clk' db uid ''all''"
  by (simp add: fetch_trades_def)

lemma fetch_trades_reads_clock:
  "fetch_trades \<lparr>now = days 30, year_start = 0\<rparr> (no_tags_db scenario_A) 7 ''1m'' = scenario_A
   \<and> fetch_trades \<lparr>now = days 31, year_start = 0\<rparr> (no_tags_db scenario_A) 7 ''1m'' = []"
  by (simp add: fetch_trades_def get_cutoff_date_def days_def user_trades_def no_tags_db_def
      scenario_A_def fill_def sort_by_date_def)

end
